theory Spec2Isabelle
  imports Complex_Main "HOL-Library.AList" "HOL-Library.Sublist" "HOL-Library.Char_ord"
    "HOL-Library.List_Lexorder"
begin

section \<open>Python values and strings\<close>

text \<open>
  A Python \<open>str\<close> is modelled as a \<open>string\<close> whose characters are the code points
  below 256. \<open>str.isspace\<close>, \<open>str.strip\<close> and \<open>str.lower\<close> are written out on
  that range.
\<close>

definition isspace :: "char \<Rightarrow> bool" where
  "isspace c =
     (let n = (of_char c :: nat)
      in (9 \<le> n \<and> n \<le> 13) \<or> (28 \<le> n \<and> n \<le> 32) \<or> n = 133 \<or> n = 160)"

definition strip :: "string \<Rightarrow> string" where
  "strip s = rev (dropWhile isspace (rev (dropWhile isspace s)))"

definition lower_char :: "char \<Rightarrow> char" where
  "lower_char c =
     (let n = (of_char c :: nat)
      in if (65 \<le> n \<and> n \<le> 90) \<or> (192 \<le> n \<and> n \<le> 222 \<and> n \<noteq> 215)
         then char_of (n + 32) else c)"

definition lower :: "string \<Rightarrow> string" where
  "lower s = map lower_char s"

text \<open>\<open>sub in s\<close> for two strings.\<close>

fun contains :: "string \<Rightarrow> string \<Rightarrow> bool" where
  "contains sub [] = (sub = [])"
| "contains sub (c # cs) = (prefix sub (c # cs) \<or> contains sub cs)"

text \<open>
  An exception raised by Python code (an instance of \<open>Exception\<close>, which is what
  every \<open>except Exception\<close> of the code catches), kept as the name of its class.
\<close>

datatype error = KeyError | AttributeError | TypeError | HTTPError | IOError | OtherError string

text \<open>
  The values that JSON parsing and the session code produce. A \<open>dict\<close> is an
  association list in insertion order; a \<open>datetime\<close> is its number of microseconds
  since the epoch; a \<open>float\<close> is the rational it denotes.
\<close>

datatype pyval =
    PNone
  | PBool bool
  | PInt int
  | PFloat rat
  | PStr string
  | PDatetime int
  | PList "pyval list"
  | PDict "(string \<times> pyval) list"

text \<open>Truth value testing, as \<open>if x:\<close> does it.\<close>

fun truthy :: "pyval \<Rightarrow> bool" where
  "truthy PNone = False"
| "truthy (PBool b) = b"
| "truthy (PInt i) = (i \<noteq> 0)"
| "truthy (PFloat r) = (r \<noteq> 0)"
| "truthy (PStr s) = (s \<noteq> [])"
| "truthy (PDatetime t) = True"
| "truthy (PList xs) = (xs \<noteq> [])"
| "truthy (PDict kvs) = (kvs \<noteq> [])"

text \<open>An \<open>Optional[str]\<close> argument under \<open>if x:\<close>.\<close>

fun truthy_str :: "string option \<Rightarrow> bool" where
  "truthy_str None = False"
| "truthy_str (Some s) = (s \<noteq> [])"

text \<open>\<open>obj.get(key, default)\<close>: only a \<open>dict\<close> has the method.\<close>

fun py_get :: "pyval \<Rightarrow> string \<Rightarrow> pyval \<Rightarrow> error + pyval" where
  "py_get (PDict kvs) k d = Inr (case map_of kvs k of None \<Rightarrow> d | Some v \<Rightarrow> v)"
| "py_get _ k d = Inl AttributeError"

text \<open>\<open>obj[key]\<close> on a \<open>dict\<close>.\<close>

definition py_getitem :: "(string \<times> pyval) list \<Rightarrow> string \<Rightarrow> error + pyval" where
  "py_getitem kvs k = (case map_of kvs k of None \<Rightarrow> Inl KeyError | Some v \<Rightarrow> Inr v)"

text \<open>\<open>for x in obj\<close>: a list gives its elements, a dict its keys, a string its characters.\<close>

fun py_iter :: "pyval \<Rightarrow> error + pyval list" where
  "py_iter (PList xs) = Inr xs"
| "py_iter (PDict kvs) = Inr (map (\<lambda>kv. PStr (fst kv)) kvs)"
| "py_iter (PStr s) = Inr (map (\<lambda>c. PStr [c]) s)"
| "py_iter _ = Inl TypeError"

text \<open>A comprehension whose body may raise: the first exception ends it.\<close>

fun mapM :: "('a \<Rightarrow> error + 'b) \<Rightarrow> 'a list \<Rightarrow> error + 'b list" where
  "mapM f [] = Inr []"
| "mapM f (x # xs) =
     (case f x of
        Inl e \<Rightarrow> Inl e
      | Inr y \<Rightarrow> (case mapM f xs of Inl e \<Rightarrow> Inl e | Inr ys \<Rightarrow> Inr (y # ys)))"

text \<open>\<open>{**d1, **d2}\<close>: a key of \<open>d2\<close> already in \<open>d1\<close> keeps its place and takes the new value.\<close>

definition dict_merge :: "(string \<times> pyval) list \<Rightarrow> (string \<times> pyval) list \<Rightarrow> (string \<times> pyval) list" where
  "dict_merge d1 d2 = foldl (\<lambda>d kv. AList.update (fst kv) (snd kv) d) d1 d2"

text \<open>\<open>sep.join(xs)\<close> for strings, and \<open>str(n)\<close> for a natural number.\<close>

fun join :: "string \<Rightarrow> string list \<Rightarrow> string" where
  "join sep [] = []"
| "join sep [x] = x"
| "join sep (x # y # ys) = x @ sep @ join sep (y # ys)"

fun str_nat :: "nat \<Rightarrow> string" where
  "str_nat n = (if n < 10 then [char_of (48 + n)] else str_nat (n div 10) @ [char_of (48 + n mod 10)])"

declare str_nat.simps [simp del]

definition newline :: string where
  "newline = [CHR 0x0A]"

text \<open>
  Equality and hashing as \<open>set.add\<close> sees them: numbers are equal across \<open>bool\<close>,
  \<open>int\<close> and \<open>float\<close>, lists and dicts are unhashable.
\<close>

fun numeric :: "pyval \<Rightarrow> rat option" where
  "numeric (PBool b) = Some (of_bool b)"
| "numeric (PInt i) = Some (of_int i)"
| "numeric (PFloat r) = Some r"
| "numeric _ = None"

definition py_eq :: "pyval \<Rightarrow> pyval \<Rightarrow> bool" where
  "py_eq a b = (case (numeric a, numeric b) of (Some x, Some y) \<Rightarrow> x = y | _ \<Rightarrow> a = b)"

fun hashable :: "pyval \<Rightarrow> bool" where
  "hashable (PList xs) = False"
| "hashable (PDict kvs) = False"
| "hashable _ = True"

definition set_add :: "pyval \<Rightarrow> pyval list \<Rightarrow> error + pyval list" where
  "set_add x xs =
     (if \<not> hashable x then Inl TypeError
      else if list_ex (py_eq x) xs then Inr xs else Inr (xs @ [x]))"

text \<open>
  \<open>sorted(xs)\<close> on the elements of a set: strings sort by code points, numbers by
  value, a list of at most one element needs no comparison, and any other mixture raises.
\<close>

fun the_str :: "pyval \<Rightarrow> string" where
  "the_str (PStr s) = s"
| "the_str _ = []"

fun is_str :: "pyval \<Rightarrow> bool" where
  "is_str (PStr s) = True"
| "is_str _ = False"

definition py_sorted :: "pyval list \<Rightarrow> error + pyval list" where
  "py_sorted xs =
     (if length xs \<le> 1 then Inr xs
      else if list_all is_str xs then Inr (map PStr (sort (map the_str xs)))
      else if list_all (\<lambda>x. numeric x \<noteq> None) xs
        then Inr (sort_key (\<lambda>x. case numeric x of Some r \<Rightarrow> r | None \<Rightarrow> 0) xs)
      else Inl TypeError)"

section \<open>intent_classifier.py\<close>

subsection \<open>Intent classification\<close>

definition intents :: "string list" where
  "intents = [''product'', ''order'', ''update_order'', ''cancel_order'', ''store_info'', ''general'']"

text \<open>
  \<open>classify_intent\<close>: the chain \<open>prompt_template | llm | StrOutputParser()\<close> is the
  parameter \<open>chain\<close>; an exception of \<open>chain.invoke\<close> is not caught.
\<close>

definition classify_response :: "string \<Rightarrow> string" where
  "classify_response response =
     (let intent = lower (strip response)
      in if intent \<notin> set intents then ''store_info'' else intent)"

definition classify_intent :: "(string \<Rightarrow> string \<Rightarrow> error + string) \<Rightarrow> string \<Rightarrow> string \<Rightarrow> error + string" where
  "classify_intent chain history query =
     (case chain history query of
        Inl e \<Rightarrow> Inl e
      | Inr response \<Rightarrow> Inr (classify_response response))"

subsection \<open>Entity extraction\<close>

text \<open>
  The regular expression engine is a parameter. \<open>re_search p i s\<close> is
  \<open>re.search(p, s, re.IGNORECASE)\<close> when \<open>i\<close> holds and \<open>re.search(p, s)\<close>
  otherwise: \<open>None\<close>, or the match with its \<open>group(0)\<close> and \<open>group(1)\<close> (empty
  for a pattern without a group). \<open>re_findall\<close> is \<open>re.findall\<close> in the same way.
\<close>

record regex =
  re_search :: "string \<Rightarrow> bool \<Rightarrow> string \<Rightarrow> (string \<times> string) option"
  re_findall :: "string \<Rightarrow> bool \<Rightarrow> string \<Rightarrow> string list"

text \<open>The backslash of a pattern.\<close>

definition bs :: string where
  "bs = [CHR 0x5C]"

text \<open>
  The second model call: \<open>prompt | self.llm | JsonOutputParser()\<close> invoked on the
  query. It answers a JSON value or raises (the call fails, or the output does not parse).
  The system prompt of each extraction method is named by its method.
\<close>

datatype extraction_prompt =
  OrderPrompt | UpdateOrderPrompt | CancelOrderPrompt | ProductPrompt | StoreInfoPrompt

type_synonym extraction_chain = "extraction_prompt \<Rightarrow> string \<Rightarrow> error + pyval"

text \<open>\<open>try: return body except Exception: return handler\<close>\<close>

definition try_except :: "error + 'a \<Rightarrow> (error \<Rightarrow> error + 'a) \<Rightarrow> error + 'a" where
  "try_except body handler = (case body of Inl e \<Rightarrow> handler e | Inr v \<Rightarrow> Inr v)"

text \<open>\<open>for pattern in patterns: matches = re.search(..); if matches: return matches\<close>\<close>

fun first_match :: "regex \<Rightarrow> string list \<Rightarrow> bool \<Rightarrow> string \<Rightarrow> (string \<times> string) option" where
  "first_match re [] i query = None"
| "first_match re (pattern # patterns) i query =
     (case re_search re pattern i query of
        Some m \<Rightarrow> Some m
      | None \<Rightarrow> first_match re patterns i query)"

definition order_id_patterns :: "string list" where
  "order_id_patterns =
     [''order'' @ bs @ ''s+(?:#|number|id|no'' @ bs @ ''.?)'' @ bs @ ''s*('' @ bs @ ''d+)'',
      ''order'' @ bs @ ''s+('' @ bs @ ''d+)'',
      ''#('' @ bs @ ''d+)'',
      ''('' @ bs @ ''d{6,})'']"

definition extract_order_id_regex :: "regex \<Rightarrow> string \<Rightarrow> string option" where
  "extract_order_id_regex re query = map_option snd (first_match re order_id_patterns True query)"

definition email_pattern :: string where
  "email_pattern = ''[a-zA-Z0-9._%+-]+@[a-zA-Z0-9.-]+'' @ bs @ ''.[a-zA-Z]{2,}''"

definition extract_email_regex :: "regex \<Rightarrow> string \<Rightarrow> string option" where
  "extract_email_regex re query = map_option fst (re_search re email_pattern False query)"

definition phone_patterns :: "string list" where
  "phone_patterns =
     [bs @ ''b(?:'' @ bs @ ''+'' @ bs @ ''d{1,3}[-.'' @ bs @ ''s]?)?(?:'' @ bs @ ''(?'' @ bs @ ''d{3}''
        @ bs @ '')?[-.'' @ bs @ ''s]?)?(?:'' @ bs @ ''d{3}[-.'' @ bs @ ''s]?'' @ bs @ ''d{4})'' @ bs @ ''b'',
      bs @ ''b'' @ bs @ ''d{10}'' @ bs @ ''b'',
      bs @ ''b'' @ bs @ ''d{3}[-.'' @ bs @ ''s]?'' @ bs @ ''d{3}[-.'' @ bs @ ''s]?'' @ bs @ ''d{4}'' @ bs @ ''b'']"

text \<open>\<open>re.sub(r'[^\d+]', '', phone)\<close>: only digits and \<open>+\<close> stay.\<close>

definition is_digit :: "char \<Rightarrow> bool" where
  "is_digit c = (let n = (of_char c :: nat) in 48 \<le> n \<and> n \<le> 57)"

definition clean_phone :: "string \<Rightarrow> string" where
  "clean_phone phone = filter (\<lambda>c. is_digit c \<or> c = CHR ''+'') phone"

definition extract_phone_regex :: "regex \<Rightarrow> string \<Rightarrow> string option" where
  "extract_phone_regex re query =
     map_option (\<lambda>m. clean_phone (fst m)) (first_match re phone_patterns False query)"

text \<open>\<open>if matches: address_info[key] = matches.group(1).strip()\<close>\<close>

definition set_group1 ::
  "regex \<Rightarrow> string \<Rightarrow> string \<Rightarrow> string \<Rightarrow> (string \<times> pyval) list \<Rightarrow> (string \<times> pyval) list" where
  "set_group1 re query pattern key address_info =
     (case re_search re pattern True query of
        None \<Rightarrow> address_info
      | Some m \<Rightarrow> AList.update key (PStr (strip (snd m))) address_info)"

text \<open>The entry that \<open>set_group1\<close> stores for a pattern, if it matches.\<close>

definition stored_group1 :: "regex \<Rightarrow> string \<Rightarrow> string \<Rightarrow> pyval option" where
  "stored_group1 re query pattern =
     map_option (\<lambda>m. PStr (strip (snd m))) (re_search re pattern True query)"

definition value_pattern :: "string \<Rightarrow> string" where
  "value_pattern name = name @ bs @ ''s+(?:is|:)?'' @ bs @ ''s+([^'' @ bs @ ''.,]+)''"

definition address_patterns :: "(string \<times> string) list" where
  "address_patterns =
     [(''address(?:'' @ bs @ ''s+'' @ bs @ ''d+)?'' @ bs @ ''s+(?:is|:)?'' @ bs @ ''s+([^'' @ bs @ ''.,]+)'',
       ''address1''),
      (''address'' @ bs @ ''s*line'' @ bs @ ''s*1'' @ bs @ ''s*(?:is|:)?'' @ bs @ ''s+([^'' @ bs @ ''.,]+)'',
       ''address1''),
      (''address'' @ bs @ ''s*line'' @ bs @ ''s*2'' @ bs @ ''s*(?:is|:)?'' @ bs @ ''s+([^'' @ bs @ ''.,]+)'',
       ''address2'')]"

definition extract_address_info_regex :: "regex \<Rightarrow> string \<Rightarrow> (string \<times> pyval) list" where
  "extract_address_info_regex re query =
     (let address_info = foldl (\<lambda>info pk. set_group1 re query (fst pk) (snd pk) info) [] address_patterns;
          address_info = set_group1 re query (value_pattern ''city'') ''city'' address_info;
          address_info = set_group1 re query (value_pattern ''(?:last name|surname|family name)'')
                           ''last_name'' address_info;
          address_info = set_group1 re query (value_pattern ''country'') ''country'' address_info;
          address_info = set_group1 re query
                           (''(?:zip|postal|zip code|postal code)'' @ bs @ ''s+(?:is|:)?'' @ bs
                              @ ''s+([^'' @ bs @ ''.,'' @ bs @ ''s]+)'')
                           ''zip'' address_info;
          address_info = set_group1 re query (value_pattern ''(?:state|province)'') ''province_code''
                           address_info
      in address_info)"

text \<open>The keys that \<open>extract_address_info_regex\<close> assigns.\<close>

definition address_keys :: "string set" where
  "address_keys = {''address1'', ''address2'', ''city'', ''last_name'', ''country'', ''zip'', ''province_code''}"

text \<open>\<open>if value: entities[key] = value\<close> for an optional string.\<close>

definition set_if :: "string \<Rightarrow> string option \<Rightarrow> (string \<times> pyval) list \<Rightarrow> (string \<times> pyval) list" where
  "set_if key v entities = (if truthy_str v then AList.update key (PStr (case v of Some x \<Rightarrow> x | None \<Rightarrow> [])) entities else entities)"

text \<open>The entry that \<open>set_if\<close> stores for an optional string, if it is truthy.\<close>

definition stored_if :: "string option \<Rightarrow> pyval option" where
  "stored_if v = (if truthy_str v then map_option PStr v else None)"

definition extract_order_entities_regex :: "regex \<Rightarrow> string \<Rightarrow> pyval" where
  "extract_order_entities_regex re query =
     PDict (set_if ''order_id'' (extract_order_id_regex re query) [])"

definition extract_update_order_entities_regex :: "regex \<Rightarrow> string \<Rightarrow> pyval" where
  "extract_update_order_entities_regex re query =
     (let entities = set_if ''order_id'' (extract_order_id_regex re query) [];
          entities = set_if ''email'' (extract_email_regex re query) entities;
          entities = set_if ''phone'' (extract_phone_regex re query) entities;
          address_info = extract_address_info_regex re query
      in PDict (if address_info \<noteq> [] then dict_merge entities address_info else entities))"

definition extract_cancel_order_entities_regex :: "regex \<Rightarrow> string \<Rightarrow> pyval" where
  "extract_cancel_order_entities_regex re query =
     PDict (set_if ''order_id'' (extract_order_id_regex re query) [])"

definition extract_order_entities :: "extraction_chain \<Rightarrow> regex \<Rightarrow> string \<Rightarrow> error + pyval" where
  "extract_order_entities chain re query =
     try_except (chain OrderPrompt query) (\<lambda>e. Inr (extract_order_entities_regex re query))"

definition extract_update_order_entities :: "extraction_chain \<Rightarrow> regex \<Rightarrow> string \<Rightarrow> error + pyval" where
  "extract_update_order_entities chain re query =
     try_except (chain UpdateOrderPrompt query) (\<lambda>e. Inr (extract_update_order_entities_regex re query))"

definition extract_cancel_order_entities :: "extraction_chain \<Rightarrow> regex \<Rightarrow> string \<Rightarrow> error + pyval" where
  "extract_cancel_order_entities chain re query =
     try_except (chain CancelOrderPrompt query) (\<lambda>e. Inr (extract_cancel_order_entities_regex re query))"

definition extract_product_entities :: "extraction_chain \<Rightarrow> regex \<Rightarrow> string \<Rightarrow> error + pyval" where
  "extract_product_entities chain re query =
     try_except (chain ProductPrompt query)
       (\<lambda>e. Inr (PDict [(''product_keywords'',
            PList (map PStr (re_findall re
              (bs @ ''b(?:shirt|shoes|jacket|pants|dress|product|item)'' @ bs @ ''b'') True query)))]))"

definition extract_store_info_entities :: "extraction_chain \<Rightarrow> regex \<Rightarrow> string \<Rightarrow> error + pyval" where
  "extract_store_info_entities chain re query =
     try_except (chain StoreInfoPrompt query) (\<lambda>e. Inr (PDict [(''query_type'', PStr ''store_info'')]))"

definition extract_basic_entities :: "string \<Rightarrow> error + pyval" where
  "extract_basic_entities query = Inr (PDict [(''query'', PStr query)])"

definition extract_entities :: "extraction_chain \<Rightarrow> regex \<Rightarrow> string \<Rightarrow> string \<Rightarrow> error + pyval" where
  "extract_entities chain re query intent =
     (if intent = ''order'' then extract_order_entities chain re query
      else if intent = ''update_order'' then extract_update_order_entities chain re query
      else if intent = ''cancel_order'' then extract_cancel_order_entities chain re query
      else if intent = ''product'' then extract_product_entities chain re query
      else if intent = ''store_info'' then extract_store_info_entities chain re query
      else extract_basic_entities query)"

section \<open>shopify_handler.py\<close>

definition required_fields :: "string list" where
  "required_fields =
     [''id'', ''order_number'', ''created_at'', ''updated_at'', ''processed_at'', ''financial_status'',
      ''fulfillment_status'', ''total_price'', ''subtotal_price'', ''total_tax'', ''currency'',
      ''email'', ''phone'', ''line_items'', ''shipping_address'', ''fulfillments'',
      ''payment_gateway_names'', ''total_discounts'', ''total_weight'', ''tags'']"

text \<open>
  \<open>ShopifyDataCollector\<close>: the fields the request methods read. The constructor sets
  \<open>headers\<close> only for a truthy access token.
\<close>

record collector =
  access_token :: "string option"
  BASE_URL :: "string option"
  headers :: "(string \<times> string) list option"

definition ShopifyDataCollector :: "string option \<Rightarrow> string option \<Rightarrow> collector" where
  "ShopifyDataCollector shopify_access_token shopify_base_url =
     \<lparr>access_token = shopify_access_token,
      BASE_URL = shopify_base_url,
      headers =
        (case shopify_access_token of
           None \<Rightarrow> None
         | Some t \<Rightarrow>
             if t \<noteq> [] then Some [(''Content-Type'', ''application/json''), (''X-Shopify-Access-Token'', t)]
             else None)\<rparr>"

text \<open>
  The REST API. An endpoint stands for the URL built from \<open>BASE_URL\<close>:
  \<open>OrdersOfCustomer c\<close> for \<open>/orders.json?query=customer_id:c&status=any\<close>,
  \<open>AllOrders\<close> for \<open>/orders.json\<close>, \<open>OrderById i\<close> for \<open>/orders/i.json\<close>.
  Every request carries the collector's headers. The answers of the service are
  parameters; \<open>requests.get\<close> and \<open>requests.put\<close> may raise, and so may
  \<open>response.json()\<close>. Every method returns its value together with the requests it
  has issued, in order.
\<close>

datatype endpoint = OrdersOfCustomer pyval | AllOrders | OrderById string

datatype request = GET endpoint | PUT endpoint pyval

record response =
  status_code :: nat
  json :: "error + pyval"

record http =
  get_response :: "endpoint \<Rightarrow> error + response"
  put_response :: "endpoint \<Rightarrow> pyval \<Rightarrow> error + response"
  file_write_ok :: bool

fun is_put :: "request \<Rightarrow> bool" where
  "is_put (PUT u b) = True"
| "is_put (GET u) = False"

definition raise_for_status :: "response \<Rightarrow> error + unit" where
  "raise_for_status r = (if 400 \<le> status_code r \<and> status_code r < 600 then Inl HTTPError else Inr ())"

text \<open>
  \<open>_handle_auth_error\<close>: without headers or base URL the wrapped method is not called
  and the result is \<open>None\<close>. The wrapped methods below catch every exception
  themselves and never return a \<open>Response\<close>, so the wrapper's other branches pass the
  result through.
\<close>

definition has_credentials :: "collector \<Rightarrow> bool" where
  "has_credentials c =
     ((case headers c of None \<Rightarrow> False | Some h \<Rightarrow> h \<noteq> []) \<and> truthy_str (BASE_URL c))"

definition handle_auth_error :: "collector \<Rightarrow> pyval \<times> request list \<Rightarrow> pyval \<times> request list" where
  "handle_auth_error c call = (if \<not> has_credentials c then (PNone, []) else call)"

text \<open>\<open>response.raise_for_status(); response.json().get(key, default)\<close>\<close>

definition json_field :: "response \<Rightarrow> string \<Rightarrow> pyval \<Rightarrow> error + pyval" where
  "json_field r key dflt =
     (case raise_for_status r of
        Inl e \<Rightarrow> Inl e
      | Inr u \<Rightarrow> (case json r of Inl e \<Rightarrow> Inl e | Inr j \<Rightarrow> py_get j key dflt))"

text \<open>\<open>{'customer_id': customer_id, **{key: order.get(key) for key in required_fields}}\<close>\<close>

definition filter_order :: "pyval \<Rightarrow> pyval \<Rightarrow> error + pyval" where
  "filter_order customer_id order =
     (case mapM (\<lambda>key. case py_get order key PNone of Inl e \<Rightarrow> Inl e | Inr v \<Rightarrow> Inr (key, v))
             required_fields of
        Inl e \<Rightarrow> Inl e
      | Inr kvs \<Rightarrow> Inr (PDict (dict_merge [(''customer_id'', customer_id)] kvs)))"

definition get_customer_orders :: "collector \<Rightarrow> http \<Rightarrow> pyval \<Rightarrow> pyval \<times> request list" where
  "get_customer_orders c env customer_id =
     handle_auth_error c
       (let url = OrdersOfCustomer customer_id;
            result =
              (case get_response env url of
                 Inl e \<Rightarrow> PNone
               | Inr r \<Rightarrow>
                   (case json_field r ''orders'' (PList []) of
                      Inl e \<Rightarrow> PNone
                    | Inr orders \<Rightarrow>
                        if truthy orders then
                          (case py_iter orders of
                             Inl e \<Rightarrow> PNone
                           | Inr os \<Rightarrow>
                               (case mapM (filter_order customer_id) os of
                                  Inl e \<Rightarrow> PNone
                                | Inr filtered_orders \<Rightarrow> PList filtered_orders))
                        else PNone))
        in (result, [GET url]))"

definition get_all_orders :: "collector \<Rightarrow> http \<Rightarrow> pyval \<times> request list" where
  "get_all_orders c env =
     handle_auth_error c
       (let url = AllOrders;
            result =
              (case get_response env url of
                 Inl e \<Rightarrow> PNone
               | Inr r \<Rightarrow>
                   (case json_field r ''orders'' (PList []) of Inl e \<Rightarrow> PNone | Inr orders \<Rightarrow> orders))
        in (result, [GET url]))"

text \<open>The entries \<open>update_order\<close> adds to a payload dict for a truthy argument.\<close>

fun entries :: "string option \<Rightarrow> string list \<Rightarrow> (string \<times> pyval) list" where
  "entries None keys = []"
| "entries (Some s) keys = (if s \<noteq> [] then map (\<lambda>k. (k, PStr s)) keys else [])"

definition update_payload ::
  "string \<Rightarrow> string option \<Rightarrow> string option \<Rightarrow> string option \<Rightarrow> string option \<Rightarrow> string option
   \<Rightarrow> string option \<Rightarrow> string option \<Rightarrow> string option \<Rightarrow> string option \<Rightarrow> pyval" where
  "update_payload order_id email phone address1 address2 city last_name province_code country zip1 =
     PDict [(''order'',
       PDict (dict_merge
         (dict_merge [(''id'', PStr order_id)]
            (entries email [''email'', ''contact_email'']))
         (entries phone [''phone''] @
          (if truthy_str address1 \<or> truthy_str address2 \<or> truthy_str city \<or> truthy_str last_name
              \<or> truthy_str country \<or> truthy_str province_code \<or> truthy_str zip1
           then [(''shipping_address'',
                  PDict (foldl dict_merge []
                    [entries address1 [''address1''], entries address2 [''address2''],
                     entries city [''city''], entries last_name [''last_name''],
                     entries country [''country''], entries province_code [''province_code''],
                     entries zip1 [''province'']]))]
           else []))))]"

definition update_order ::
  "collector \<Rightarrow> http \<Rightarrow> string \<Rightarrow> string option \<Rightarrow> string option \<Rightarrow> string option \<Rightarrow> string option
   \<Rightarrow> string option \<Rightarrow> string option \<Rightarrow> string option \<Rightarrow> string option \<Rightarrow> string option
   \<Rightarrow> pyval \<times> request list" where
  "update_order c env order_id email phone address1 address2 city last_name province_code country zip1 =
     handle_auth_error c
       (let url = OrderById order_id in
        case get_response env url of
          Inl e \<Rightarrow> (PNone, [GET url])
        | Inr r \<Rightarrow>
            (case json_field r ''order'' PNone of
               Inl e \<Rightarrow> (PNone, [GET url])
             | Inr order_data \<Rightarrow>
                 if \<not> truthy order_data then (PNone, [GET url])
                 else
                   (case py_get order_data ''fulfillment_status'' PNone of
                      Inl e \<Rightarrow> (PNone, [GET url])
                    | Inr fulfillment_status \<Rightarrow>
                        (case py_get order_data ''cancelled_at'' PNone of
                           Inl e \<Rightarrow> (PNone, [GET url])
                         | Inr cancelled_at \<Rightarrow>
                             if fulfillment_status = PStr ''fulfilled'' then (PNone, [GET url])
                             else if cancelled_at \<noteq> PNone then (PNone, [GET url])
                             else
                               (let update_data =
                                      update_payload order_id email phone address1 address2 city
                                        last_name province_code country zip1;
                                    result =
                                      (case put_response env url update_data of
                                         Inl e \<Rightarrow> PNone
                                       | Inr r2 \<Rightarrow>
                                           (case json_field r2 ''order'' PNone of
                                              Inl e \<Rightarrow> PNone
                                            | Inr order_data2 \<Rightarrow>
                                                if truthy order_data2 \<and> \<not> file_write_ok env then PNone
                                                else order_data2))
                                in (result, [GET url, PUT url update_data]))))))"

section \<open>retrieved_documents.py\<close>

text \<open>
  The filter objects of the vector index client: \<open>FieldCondition k v\<close> is
  \<open>FieldCondition(key=k, match=MatchValue(value=v))\<close>, and \<open>Filter must should sc\<close>
  is \<open>Filter(must=.., should=.., should_score=..)\<close>, an absent list being empty.
\<close>

datatype cond =
    FieldCondition string pyval
  | Filter (must: "cond list") (should: "cond list") (should_score: "int option")

record point =
  pid :: pyval
  payload :: "(string \<times> pyval) list option"

record scored_point = point +
  score :: rat

text \<open>
  The calls a client can make on the index. \<open>Search\<close> carries collection, query
  vector, filter, limit and score threshold; \<open>Scroll\<close> carries collection, filter,
  limit and offset. The other calls change the index.
\<close>

datatype qcall =
    Search string "rat list" "cond option" nat "rat option"
  | Scroll string "cond option" nat "pyval option"
  | Upsert string "point list"
  | Delete string cond
  | SetPayload string "(string \<times> pyval) list" cond
  | CreateCollection string
  | DeleteCollection string

fun is_read :: "qcall \<Rightarrow> bool" where
  "is_read (Search c v f l t) = True"
| "is_read (Scroll c f l off) = True"
| "is_read _ = False"

text \<open>
  The services behind \<open>QdrantSearcher\<close> are parameters: what \<open>search\<close> and
  \<open>scroll\<close> answer (or raise), what \<open>embed_query\<close> answers (or raises), and whether
  the client library accepts the values of a filter object when it is constructed (it
  raises otherwise).
  A limit is a natural number. Every method returns its value together with the index
  calls it has made, in order.
\<close>

record qdrant =
  search :: "string \<Rightarrow> rat list \<Rightarrow> cond option \<Rightarrow> nat \<Rightarrow> rat option \<Rightarrow> error + scored_point list"
  scroll :: "string \<Rightarrow> cond option \<Rightarrow> nat \<Rightarrow> pyval option \<Rightarrow> error + (point list \<times> pyval option)"
  embed_query :: "string \<Rightarrow> error + rat list"
  accepts :: "cond \<Rightarrow> bool"

text \<open>
  The client's \<open>Filter\<close> model declares the fields \<open>must\<close>, \<open>should\<close>,
  \<open>min_should\<close> and \<open>must_not\<close> and forbids any other: a filter given
  \<open>should_score\<close> raises when it is constructed, whatever its conditions are.
\<close>

fun has_extra_field :: "cond \<Rightarrow> bool" where
  "has_extra_field (FieldCondition k v) = False"
| "has_extra_field (Filter ms ss sc) =
     (sc \<noteq> None \<or> list_ex has_extra_field ms \<or> list_ex has_extra_field ss)"

definition constructs :: "qdrant \<Rightarrow> cond \<Rightarrow> bool" where
  "constructs client c = (\<not> has_extra_field c \<and> accepts client c)"

record QdrantSearcher =
  qdrant_client :: qdrant
  document_collection :: string
  product_collection :: string

definition new_QdrantSearcher :: "qdrant \<Rightarrow> QdrantSearcher" where
  "new_QdrantSearcher client =
     \<lparr>qdrant_client = client, document_collection = ''document_store'',
      product_collection = ''softmaxai-parshva.myshopify.com''\<rparr>"

text \<open>The condition appended for a truthy \<open>Optional[str]\<close> argument.\<close>

fun field_condition :: "string \<Rightarrow> string option \<Rightarrow> cond list" where
  "field_condition key None = []"
| "field_condition key (Some v) = (if v \<noteq> [] then [FieldCondition key (PStr v)] else [])"

definition dict_get :: "(string \<times> pyval) list \<Rightarrow> string \<Rightarrow> pyval \<Rightarrow> pyval" where
  "dict_get kvs k d = (case map_of kvs k of None \<Rightarrow> d | Some v \<Rightarrow> v)"

subsection \<open>search_documents\<close>

definition document_conditions :: "string option \<Rightarrow> string option \<Rightarrow> string option \<Rightarrow> cond list" where
  "document_conditions store_name doc_type source =
     field_condition ''store'' store_name @ field_condition ''type'' doc_type
     @ field_condition ''source'' source"

definition document_filter :: "string option \<Rightarrow> string option \<Rightarrow> string option \<Rightarrow> cond option" where
  "document_filter store_name doc_type source =
     (let filter_conditions = document_conditions store_name doc_type source
      in if filter_conditions \<noteq> [] then Some (Filter filter_conditions [] None) else None)"

definition format_document :: "scored_point \<Rightarrow> error + pyval" where
  "format_document result =
     (case payload result of
        None \<Rightarrow> Inl AttributeError
      | Some pl \<Rightarrow>
          Inr (PDict [(''id'', pid result), (''score'', PFloat (score result)),
                      (''text'', dict_get pl ''text'' (PStr [])),
                      (''metadata'', PDict (filter (\<lambda>kv. fst kv \<noteq> ''text'') pl))]))"

definition filter_accepted :: "qdrant \<Rightarrow> cond option \<Rightarrow> bool" where
  "filter_accepted client f = (case f of None \<Rightarrow> True | Some c \<Rightarrow> constructs client c)"

definition search_documents ::
  "QdrantSearcher \<Rightarrow> string \<Rightarrow> string option \<Rightarrow> string option \<Rightarrow> string option \<Rightarrow> nat \<Rightarrow> rat
   \<Rightarrow> pyval list \<times> qcall list" where
  "search_documents self query store_name doc_type source limit score_threshold =
     (case embed_query (qdrant_client self) query of
        Inl e \<Rightarrow> ([], [])
      | Inr query_embedding \<Rightarrow>
          (let search_filter = document_filter store_name doc_type source
           in if \<not> filter_accepted (qdrant_client self) search_filter then ([], [])
              else
                (let call = Search (document_collection self) query_embedding search_filter limit
                              (Some score_threshold)
                 in case search (qdrant_client self) (document_collection self) query_embedding
                           search_filter limit (Some score_threshold) of
                      Inl e \<Rightarrow> ([], [call])
                    | Inr search_results \<Rightarrow>
                        (case mapM format_document search_results of
                           Inl e \<Rightarrow> ([], [call])
                         | Inr formatted_results \<Rightarrow> (formatted_results, [call])))))"

subsection \<open>search_products\<close>

definition tag_filter :: "string list option \<Rightarrow> cond list" where
  "tag_filter tags =
     (case tags of
        None \<Rightarrow> []
      | Some ts \<Rightarrow>
          if ts \<noteq> [] \<and> length ts > 0
          then [Filter [] (map (\<lambda>tag. FieldCondition ''tags'' (PStr tag)) ts) (Some 1)]
          else [])"

definition product_conditions ::
  "string option \<Rightarrow> string option \<Rightarrow> string option \<Rightarrow> string list option \<Rightarrow> cond list" where
  "product_conditions store_name product_type vendor tags =
     [FieldCondition ''type'' (PStr ''shopify_product'')]
     @ field_condition ''store'' store_name @ field_condition ''product_type'' product_type
     @ field_condition ''vendor'' vendor @ tag_filter tags"

definition product_filter ::
  "string option \<Rightarrow> string option \<Rightarrow> string option \<Rightarrow> string list option \<Rightarrow> cond" where
  "product_filter store_name product_type vendor tags =
     Filter (product_conditions store_name product_type vendor tags) [] None"

definition format_product :: "scored_point \<Rightarrow> error + pyval" where
  "format_product result =
     (case payload result of
        None \<Rightarrow> Inl AttributeError
      | Some pl \<Rightarrow>
          Inr (PDict [(''id'', pid result), (''score'', PFloat (score result)),
                      (''title'', dict_get pl ''title'' (PStr [])),
                      (''product_id'', dict_get pl ''product_id'' (PStr [])),
                      (''vendor'', dict_get pl ''vendor'' (PStr [])),
                      (''product_type'', dict_get pl ''product_type'' (PStr [])),
                      (''tags'', dict_get pl ''tags'' (PList [])),
                      (''store'', dict_get pl ''store'' (PStr []))]))"

definition search_products ::
  "QdrantSearcher \<Rightarrow> string \<Rightarrow> string option \<Rightarrow> string option \<Rightarrow> string option \<Rightarrow> string list option
   \<Rightarrow> nat \<Rightarrow> rat \<Rightarrow> pyval list \<times> qcall list" where
  "search_products self query store_name product_type vendor tags limit score_threshold =
     (case embed_query (qdrant_client self) query of
        Inl e \<Rightarrow> ([], [])
      | Inr query_embedding \<Rightarrow>
          (let search_filter = product_filter store_name product_type vendor tags
           in if list_all (constructs (qdrant_client self)) (tag_filter tags)
                 \<and> constructs (qdrant_client self) search_filter
              then
                (let call = Search (product_collection self) query_embedding (Some search_filter)
                              limit (Some score_threshold)
                 in case search (qdrant_client self) (product_collection self) query_embedding
                           (Some search_filter) limit (Some score_threshold) of
                      Inl e \<Rightarrow> ([], [call])
                    | Inr search_results \<Rightarrow>
                        (case mapM format_product search_results of
                           Inl e \<Rightarrow> ([], [call])
                         | Inr formatted_results \<Rightarrow> (formatted_results, [call])))
              else ([], [])))"

subsection \<open>search_all\<close>

text \<open>
  The two searches are gathered; neither reads what the other writes, and the log lists
  the calls of the document search first.
\<close>

definition search_all :: "QdrantSearcher \<Rightarrow> string \<Rightarrow> string option \<Rightarrow> nat \<Rightarrow> rat \<Rightarrow> pyval \<times> qcall list" where
  "search_all self query store_name limit score_threshold =
     (let document_results = search_documents self query store_name None None limit score_threshold;
          product_results = search_products self query store_name None None None limit score_threshold
      in (PDict [(''documents'', PList (fst document_results)),
                 (''products'', PList (fst product_results))],
          snd document_results @ snd product_results))"

subsection \<open>get_store_details\<close>

text \<open>The first point whose payload has the key \<open>store_details\<close>.\<close>

fun first_store_details :: "point list \<Rightarrow> error + (string \<times> pyval) list option" where
  "first_store_details [] = Inr None"
| "first_store_details (p # ps) =
     (case payload p of
        None \<Rightarrow> Inl TypeError
      | Some pl \<Rightarrow> if ''store_details'' \<in> fst ` set pl then Inr (Some pl) else first_store_details ps)"

text \<open>\<open>result.payload.get("text", "")[:1000]\<close>, as an item of \<open>str.join\<close>.\<close>

definition text_1000 :: "scored_point \<Rightarrow> error + string" where
  "text_1000 result =
     (case payload result of
        None \<Rightarrow> Inl AttributeError
      | Some pl \<Rightarrow>
          (case dict_get pl ''text'' (PStr []) of PStr t \<Rightarrow> Inr (take 1000 t) | _ \<Rightarrow> Inl TypeError))"

definition store_value :: "string option \<Rightarrow> pyval" where
  "store_value store_name = (case store_name of None \<Rightarrow> PNone | Some n \<Rightarrow> PStr n)"

definition get_store_details :: "QdrantSearcher \<Rightarrow> string option \<Rightarrow> pyval \<times> qcall list" where
  "get_store_details self store_name =
     (let search_filter = Filter [FieldCondition ''store'' (store_value store_name)] [] None
      in if \<not> constructs (qdrant_client self) search_filter then (PNone, [])
         else
           (let call1 = Scroll (document_collection self) (Some search_filter) 100 None
            in case scroll (qdrant_client self) (document_collection self) (Some search_filter) 100 None of
                 Inl e \<Rightarrow> (PNone, [call1])
               | Inr page \<Rightarrow>
                   (let points = fst page
                    in case first_store_details points of
                         Inl e \<Rightarrow> (PNone, [call1])
                       | Inr (Some pl) \<Rightarrow>
                           (PDict [(''store_name'', store_value store_name),
                                   (''store_details'', dict_get pl ''store_details'' PNone),
                                   (''source'', dict_get pl ''source'' (PStr ''Unknown''))],
                            [call1])
                       | Inr None \<Rightarrow>
                           if points = [] then (PNone, [call1])
                           else
                             (case embed_query (qdrant_client self) ''store information description about'' of
                                Inl e \<Rightarrow> (PNone, [call1])
                              | Inr query_embedding \<Rightarrow>
                                  (let call2 = Search (document_collection self) query_embedding
                                                 (Some search_filter) 5 None
                                   in case search (qdrant_client self) (document_collection self)
                                             query_embedding (Some search_filter) 5 None of
                                        Inl e \<Rightarrow> (PNone, [call1, call2])
                                      | Inr search_results \<Rightarrow>
                                          if search_results = [] then (PNone, [call1, call2])
                                          else
                                            (case mapM text_1000 search_results of
                                               Inl e \<Rightarrow> (PNone, [call1, call2])
                                             | Inr texts \<Rightarrow>
                                                 (let combined_text = join (newline @ newline) texts
                                                  in (PDict
                                                       [(''store_name'', store_value store_name),
                                                        (''store_details'',
                                                         PStr (''Store information compiled from ''
                                                               @ str_nat (length search_results)
                                                               @ '' documents'')),
                                                        (''text_sample'', PStr (take 500 combined_text @ ''...'')),
                                                        (''note'',
                                                         PStr ''No explicit store_details found; this is compiled from relevant documents'')],
                                                      [call1, call2]))))))))"

subsection \<open>search_by_metadata\<close>

text \<open>\<open>x or d\<close> for an \<open>Optional[str]\<close> and a string.\<close>

fun str_or :: "string option \<Rightarrow> string \<Rightarrow> string" where
  "str_or None d = d"
| "str_or (Some s) d = (if s \<noteq> [] then s else d)"

definition format_point :: "point \<Rightarrow> error + pyval" where
  "format_point p =
     (case payload p of
        None \<Rightarrow> Inl TypeError
      | Some pl \<Rightarrow> Inr (PDict (dict_merge [(''id'', pid p)] pl)))"

definition search_by_metadata ::
  "QdrantSearcher \<Rightarrow> string \<Rightarrow> pyval \<Rightarrow> string option \<Rightarrow> nat \<Rightarrow> pyval list \<times> qcall list" where
  "search_by_metadata self field val collection_name limit =
     (let collection = str_or collection_name (document_collection self);
          search_filter = Filter [FieldCondition field val] [] None
      in if \<not> constructs (qdrant_client self) search_filter then ([], [])
         else
           (let call = Scroll collection (Some search_filter) limit None
            in case scroll (qdrant_client self) collection (Some search_filter) limit None of
                 Inl e \<Rightarrow> ([], [call])
               | Inr search_results \<Rightarrow>
                   (case mapM format_point (fst search_results) of
                      Inl e \<Rightarrow> ([], [call])
                    | Inr formatted_results \<Rightarrow> (formatted_results, [call]))))"

subsection \<open>get_all_store_names\<close>

text \<open>The inner loop: the store names of one batch are added to the set.\<close>

fun add_store_names :: "pyval list \<Rightarrow> point list \<Rightarrow> error + pyval list" where
  "add_store_names store_names [] = Inr store_names"
| "add_store_names store_names (p # ps) =
     (case payload p of
        None \<Rightarrow> Inl TypeError
      | Some pl \<Rightarrow>
          (case map_of pl ''store'' of
             None \<Rightarrow> add_store_names store_names ps
           | Some v \<Rightarrow>
               (case set_add v store_names of
                  Inl e \<Rightarrow> Inl e
                | Inr store_names' \<Rightarrow> add_store_names store_names' ps)))"

text \<open>
  The \<open>while True\<close> loop ends when a batch comes without a next offset; nothing in the
  code bounds the number of batches. The loop is run for at most \<open>n\<close> batches: the
  outcome is \<open>None\<close> when the loop is still running after them, and the calls made so far
  are returned in both cases.
\<close>

fun scroll_loop ::
  "QdrantSearcher \<Rightarrow> nat \<Rightarrow> pyval option \<Rightarrow> pyval list \<Rightarrow> (error + pyval list) option \<times> qcall list" where
  "scroll_loop self 0 offset store_names = (None, [])"
| "scroll_loop self (Suc n) offset store_names =
     (let call = Scroll (document_collection self) None 1000 offset
      in case scroll (qdrant_client self) (document_collection self) None 1000 offset of
           Inl e \<Rightarrow> (Some (Inl e), [call])
         | Inr page \<Rightarrow>
             (case add_store_names store_names (fst page) of
                Inl e \<Rightarrow> (Some (Inl e), [call])
              | Inr store_names' \<Rightarrow>
                  if snd page = None then (Some (Inr store_names'), [call])
                  else (let rest = scroll_loop self n (snd page) store_names'
                        in (fst rest, call # snd rest))))"

definition get_all_store_names :: "QdrantSearcher \<Rightarrow> nat \<Rightarrow> pyval list option \<times> qcall list" where
  "get_all_store_names self n =
     (let run = scroll_loop self n None []
      in (case fst run of
            None \<Rightarrow> None
          | Some (Inl e) \<Rightarrow> Some []
          | Some (Inr store_names) \<Rightarrow>
              (case py_sorted store_names of Inl e \<Rightarrow> Some [] | Inr names \<Rightarrow> Some names),
          snd run))"

text \<open>
  How the index decides a filter on a payload: a field condition holds when the payload
  value equals the given value or is a list that contains it; a filter holds when all
  \<open>must\<close> conditions hold and, if there are \<open>should\<close> conditions, at least one of
  them holds. A point is admitted by a search when its score is at least the threshold (the
  collections are created with cosine distance in \<open>store_in_qdrant.py\<close>, where a higher
  score is a closer match) and its payload satisfies the filter.
\<close>

fun matches :: "cond \<Rightarrow> (string \<times> pyval) list \<Rightarrow> bool" where
  "matches (FieldCondition k v) pl =
     (case map_of pl k of
        None \<Rightarrow> False
      | Some (PList xs) \<Rightarrow> v \<in> set xs
      | Some x \<Rightarrow> x = v)"
| "matches (Filter ms ss sc) pl =
     (list_all (\<lambda>c. matches c pl) ms \<and> (ss = [] \<or> list_ex (\<lambda>c. matches c pl) ss))"

definition payload_of :: "scored_point \<Rightarrow> (string \<times> pyval) list" where
  "payload_of r = (case payload r of None \<Rightarrow> [] | Some pl \<Rightarrow> pl)"

definition admitted :: "cond option \<Rightarrow> rat option \<Rightarrow> scored_point \<Rightarrow> bool" where
  "admitted f threshold r =
     ((case threshold of None \<Rightarrow> True | Some t \<Rightarrow> t \<le> score r)
      \<and> (case f of None \<Rightarrow> True | Some c \<Rightarrow> matches c (payload_of r)))"

section \<open>intellizen_voicebot2.py\<close>

subsection \<open>The Conversations table\<close>

text \<open>
  The relational store: whether the module-level \<open>engine\<close> was created, whether
  \<open>engine.connect()\<close> and \<open>connection.execute\<close> or \<open>commit\<close> raise, and the rows of
  the table \<open>Conversations\<close>, each row being the bound parameters of its insert.
\<close>

record db =
  engine :: bool
  connect_raises :: bool
  execute_raises :: bool
  Conversations :: "(string \<times> pyval) list list"

definition insert_columns :: "string list" where
  "insert_columns =
     [''Conversation'', ''User_ID'', ''Store_ID'', ''Session_ID'', ''Session_Time'',
      ''Duration_of_Call'', ''Call_Reason'', ''Escalation'', ''Query_Type'']"

text \<open>
  \<open>insert_conversation_to_db\<close>. The parameters of the insert are read from
  \<open>conversation_data\<close> by subscript, inside the \<open>try\<close> whose handler logs the
  exception and returns \<open>False\<close>; \<open>engine.connect()\<close> is called before the \<open>try\<close>.
\<close>

definition insert_conversation_to_db :: "db \<Rightarrow> (string \<times> pyval) list \<Rightarrow> (error + bool) \<times> db" where
  "insert_conversation_to_db d conversation_data =
     (if \<not> engine d then (Inr False, d)
      else if connect_raises d then (Inl (OtherError ''OperationalError''), d)
      else
        (case mapM (\<lambda>column. case py_getitem conversation_data column of
                                  Inl e \<Rightarrow> Inl e
                                | Inr v \<Rightarrow> Inr (column, v))
                insert_columns of
           Inl e \<Rightarrow> (Inr False, d)
         | Inr parameters \<Rightarrow>
             if execute_raises d then (Inr False, d)
             else (Inr True, d\<lparr>Conversations := Conversations d @ [parameters]\<rparr>)))"

subsection \<open>The store profile in Redis\<close>

text \<open>\<open>redis_client.hgetall(key)\<close>: the hash stored under the key (empty if none), or an exception.\<close>

type_synonym redis = "string \<Rightarrow> error + (string \<times> string) list"

definition no_profile :: "string option \<times> string option \<times> string option \<times> string option" where
  "no_profile = (None, None, None, None)"

definition get_store_from_redis ::
  "redis \<Rightarrow> string option \<Rightarrow> string option \<times> string option \<times> string option \<times> string option" where
  "get_store_from_redis hgetall phone_number =
     (if \<not> truthy_str phone_number then no_profile
      else
        (let redis_key = ''store:'' @ (case phone_number of Some n \<Rightarrow> n | None \<Rightarrow> [])
         in case hgetall redis_key of
              Inl e \<Rightarrow> no_profile
            | Inr store_data \<Rightarrow>
                if store_data = [] then no_profile
                else (map_of store_data ''store_name'', map_of store_data ''store_details'',
                      map_of store_data ''shopify_access_token'', map_of store_data ''shopify_base_url'')))"

subsection \<open>The call session\<close>

text \<open>
  The state of one call: the module globals that \<open>on_participant_connected\<close> sets, the
  attributes of the \<open>ShopifyFunctions\<close> object, the session variables that
  \<open>entrypoint\<close> creates and its callbacks share, and the relational store. The
  \<open>entrypoint\<close> passes the room name as the first positional argument of
  \<open>ShopifyFunctions\<close>, so the attribute \<open>shopify\<close> starts as that string.
\<close>

datatype shopify_attr = RoomName string | Collector collector

fun truthy_attr :: "shopify_attr \<Rightarrow> bool" where
  "truthy_attr (RoomName n) = (n \<noteq> [])"
| "truthy_attr (Collector c) = True"

record session =
  store_name :: "string option"
  store_details :: "string option"
  shopify_access_token :: "string option"
  shopify_base_url :: "string option"
  called_number :: "string option"
  caller_number :: "string option"
  fnc_shopify :: shopify_attr
  fnc_qdrant_searcher :: bool
  session_id :: string
  session_start_time :: int
  conversation_log :: "string list"
  user_id :: int
  store_id :: int
  detected_intent :: "string option"
  escalation_requested :: bool
  database :: db

definition new_session :: "string \<Rightarrow> string \<Rightarrow> int \<Rightarrow> db \<Rightarrow> session" where
  "new_session room_name sid now d =
     \<lparr>store_name = None, store_details = None, shopify_access_token = None,
      shopify_base_url = None, called_number = None, caller_number = None,
      fnc_shopify = RoomName room_name, fnc_qdrant_searcher = False,
      session_id = sid, session_start_time = now, conversation_log = [],
      user_id = 1, store_id = 1, detected_intent = None, escalation_requested = False,
      database = d\<rparr>"

text \<open>The content of a chat message: a string, a list of strings and images, or nothing.\<close>

datatype chat_item = Text string | ChatImage

datatype content = Str string | Items "chat_item list" | NoContent

fun item_text :: "chat_item \<Rightarrow> string" where
  "item_text ChatImage = ''[image]''"
| "item_text (Text t) = t"

text \<open>The content after \<open>if isinstance(content, list): content = "\\n".join(..)\<close>.\<close>

fun joined :: "content \<Rightarrow> string option" where
  "joined (Str t) = Some t"
| "joined (Items xs) = Some (join newline (map item_text xs))"
| "joined NoContent = None"

text \<open>
  The escalation test. On a content of \<open>None\<close> the call \<open>content.lower()\<close> raises
  inside the \<open>try\<close>, and the handler leaves the flag as it is.
\<close>

definition asks_for_human :: "content \<Rightarrow> bool" where
  "asks_for_human c =
     (case joined c of
        None \<Rightarrow> False
      | Some t \<Rightarrow> contains ''speak to human'' (lower t) \<or> contains ''talk to agent'' (lower t)
                  \<or> contains ''agent please'' (lower t))"

definition str_of :: "string option \<Rightarrow> string" where
  "str_of v = (case v of None \<Rightarrow> ''None'' | Some t \<Rightarrow> t)"

definition on_user_speech_committed :: "content \<Rightarrow> session \<Rightarrow> session" where
  "on_user_speech_committed msg s =
     (let s1 = (if asks_for_human msg then s\<lparr>escalation_requested := True\<rparr> else s)
      in s1\<lparr>conversation_log :=
               conversation_log s1 @ [''USER:'' @ newline @ str_of (joined msg) @ newline @ newline]\<rparr>)"

text \<open>The agent's committed speech is a string.\<close>

definition on_agent_speech_committed :: "string \<Rightarrow> session \<Rightarrow> session" where
  "on_agent_speech_committed msg s =
     s\<lparr>conversation_log := conversation_log s @ [''AGENT:'' @ newline @ msg @ newline @ newline]\<rparr>"

text \<open>\<open>(datetime.now() - session_start_time).seconds\<close>, times in microseconds.\<close>

definition timedelta_seconds :: "int \<Rightarrow> int \<Rightarrow> int" where
  "timedelta_seconds now start = ((now - start) div 1000000) mod 86400"

definition conversation_data :: "int \<Rightarrow> session \<Rightarrow> (string \<times> pyval) list" where
  "conversation_data now s =
     [(''Conversation'', PStr (concat (conversation_log s))),
      (''User_ID'', PInt (user_id s)),
      (''Store_ID'', PInt (store_id s)),
      (''Session_ID'', PStr (session_id s)),
      (''Session_Time'', PDatetime (session_start_time s)),
      (''Duration_of_Call'', PInt (timedelta_seconds now (session_start_time s))),
      (''Escalation'', PBool (escalation_requested s)),
      (''Query_Type'', (case detected_intent s of None \<Rightarrow> PNone | Some i \<Rightarrow> PStr i))]"

text \<open>
  \<open>save_conversation_to_db\<close>, the shutdown callback: an exception of the insert is
  logged and dropped.
\<close>

definition save_conversation_to_db :: "int \<Rightarrow> session \<Rightarrow> session" where
  "save_conversation_to_db now s =
     s\<lparr>database := snd (insert_conversation_to_db (database s) (conversation_data now s))\<rparr>"

text \<open>
  \<open>on_participant_connected\<close>, as far as the session state goes: the two phone numbers,
  the store profile from Redis, and the collector handed to the function context.
\<close>

definition on_participant_connected :: "redis \<Rightarrow> (string \<times> string) list \<Rightarrow> session \<Rightarrow> session" where
  "on_participant_connected hgetall attributes s =
     (let called = map_of attributes ''sip.trunkPhoneNumber'';
          caller = map_of attributes ''sip.phoneNumber'';
          profile = get_store_from_redis hgetall called;
          token = fst (snd (snd profile));
          base_url = snd (snd (snd profile));
          shopify = ShopifyDataCollector token
                      (Some (''https://'' @ str_of base_url @ ''/admin/api/2025-01''))
      in s\<lparr>called_number := called, caller_number := caller,
            store_name := fst profile, store_details := fst (snd profile),
            shopify_access_token := token, shopify_base_url := base_url,
            fnc_shopify := Collector shopify\<rparr>)"

text \<open>
  The function calls of \<open>ShopifyFunctions\<close>, as far as the session state goes: each
  creates the handlers it finds missing, from the globals. What they ask of the commerce
  API and of the index is not part of the session state.
\<close>

definition fresh_collector :: "session \<Rightarrow> shopify_attr" where
  "fresh_collector s = Collector (ShopifyDataCollector (shopify_access_token s) (shopify_base_url s))"

definition get_product_information :: "session \<Rightarrow> session" where
  "get_product_information s =
     (if \<not> truthy_attr (fnc_shopify s) \<or> \<not> fnc_qdrant_searcher s
      then s\<lparr>fnc_shopify := fresh_collector s, fnc_qdrant_searcher := True\<rparr> else s)"

definition ensure_shopify :: "session \<Rightarrow> session" where
  "ensure_shopify s = (if \<not> truthy_attr (fnc_shopify s) then s\<lparr>fnc_shopify := fresh_collector s\<rparr> else s)"

definition get_store_information :: "session \<Rightarrow> session" where
  "get_store_information s = (if \<not> fnc_qdrant_searcher s then s\<lparr>fnc_qdrant_searcher := True\<rparr> else s)"

datatype event =
    ParticipantConnected "(string \<times> string) list"
  | UserSpeechCommitted content
  | AgentSpeechCommitted string
  | GetProductInformation
  | GetOrderStatus
  | UpdateOrder
  | CancelOrder
  | GetStoreInformation
  | TransferToAgent
  | Shutdown int

fun step :: "redis \<Rightarrow> session \<Rightarrow> event \<Rightarrow> session" where
  "step r s (ParticipantConnected attributes) = on_participant_connected r attributes s"
| "step r s (UserSpeechCommitted msg) = on_user_speech_committed msg s"
| "step r s (AgentSpeechCommitted msg) = on_agent_speech_committed msg s"
| "step r s GetProductInformation = get_product_information s"
| "step r s GetOrderStatus = ensure_shopify s"
| "step r s UpdateOrder = ensure_shopify s"
| "step r s CancelOrder = ensure_shopify s"
| "step r s GetStoreInformation = get_store_information s"
| "step r s TransferToAgent = s"
| "step r s (Shutdown now) = save_conversation_to_db now s"

definition run :: "redis \<Rightarrow> session \<Rightarrow> event list \<Rightarrow> session" where
  "run r s es = foldl (step r) s es"

fun is_lookup :: "event \<Rightarrow> bool" where
  "is_lookup (ParticipantConnected attributes) = True"
| "is_lookup _ = False"

definition store_profile :: "session \<Rightarrow> string option \<times> string option \<times> string option \<times> string option" where
  "store_profile s = (store_name s, store_details s, shopify_access_token s, shopify_base_url s)"

section \<open>Example inputs\<close>

definition example_collector :: collector where
  "example_collector =
     ShopifyDataCollector (Some ''token'') (Some ''https://shop.example/admin/api/2025-01'')"

definition ok_response :: "pyval \<Rightarrow> response" where
  "ok_response body = \<lparr>status_code = 200, json = Inr body\<rparr>"

text \<open>A store whose only order carries a field outside \<open>required_fields\<close>.\<close>

definition orders_service :: http where
  "orders_service =
     \<lparr>get_response =
        (\<lambda>u. Inr (ok_response
           (PDict [(''orders'', PList [PDict [(''id'', PInt 1), (''note'', PStr ''gift'')]])]))),
      put_response = (\<lambda>u b. Inl HTTPError),
      file_write_ok = True\<rparr>"

text \<open>A store that answers every order fetch with the given order and accepts every update.\<close>

definition order_service :: "pyval \<Rightarrow> http" where
  "order_service order =
     \<lparr>get_response = (\<lambda>u. Inr (ok_response (PDict [(''order'', order)]))),
      put_response = (\<lambda>u b. Inr (ok_response (PDict [(''order'', order)]))),
      file_write_ok = True\<rparr>"

definition fulfilled_order :: pyval where
  "fulfilled_order =
     PDict [(''id'', PInt 1), (''fulfillment_status'', PStr ''fulfilled''), (''cancelled_at'', PNone)]"

definition open_order :: pyval where
  "open_order = PDict [(''id'', PInt 2), (''fulfillment_status'', PNone), (''cancelled_at'', PNone)]"

text \<open>
  A small index of three points, best score first. Its search and scroll keep the admitted
  points up to the limit; a scroll answers with a single batch. Its client accepts every
  value of a filter.
\<close>

definition example_points :: "scored_point list" where
  "example_points =
     [\<lparr>pid = PInt 1,
       payload = Some [(''type'', PStr ''shopify_product''), (''store'', PStr ''acme''),
                       (''title'', PStr ''Blue shirt''), (''tags'', PList [PStr ''blue'', PStr ''shirt''])],
       score = 9 / 10\<rparr>,
      \<lparr>pid = PInt 3,
       payload = Some [(''type'', PStr ''product_document''), (''store'', PStr ''acme''),
                       (''text'', PStr ''Shirts are made of cotton.'')],
       score = 4 / 5\<rparr>,
      \<lparr>pid = PInt 2,
       payload = Some [(''type'', PStr ''shopify_product''), (''store'', PStr ''acme''),
                       (''title'', PStr ''Red shoes''), (''tags'', PList [PStr ''red''])],
       score = 1 / 2\<rparr>]"

definition example_index :: qdrant where
  "example_index =
     \<lparr>search = (\<lambda>collection v f limit threshold.
                  Inr (take limit (filter (admitted f threshold) example_points))),
      scroll = (\<lambda>collection f limit offset.
                  Inr (take limit (map (\<lambda>r. \<lparr>pid = pid r, payload = payload r\<rparr>)
                                    (filter (admitted f None) example_points)), None)),
      embed_query = (\<lambda>text. Inr [1, 0]),
      accepts = (\<lambda>c. True)\<rparr>"

text \<open>
  What \<open>re.search\<close> answers on two queries, for every pattern of the extractor and
  with or without \<open>re.IGNORECASE\<close>: the table lists, for each query, the patterns that
  match it, with their \<open>group(0)\<close> and \<open>group(1)\<close>; no other pattern of the
  extractor matches. \<open>re.findall\<close> finds no product word in either query.
\<close>

definition example_query :: string where
  "example_query =
     ''Change order #12345: email a@b.example, phone 555-123-4567, address line 2 is Flat 4, city is Pune.''"

definition example_address_query :: string where
  "example_address_query =
     ''My address is 5 Oak Rd, address line 1 is 12 Main St, zip is 411001, country is India, state is MH, last name is Rao.''"

definition example_matches :: "((string \<times> string) \<times> (string \<times> string)) list" where
  "example_matches =
     [((example_query,
        ''order'' @ bs @ ''s+(?:#|number|id|no'' @ bs @ ''.?)'' @ bs @ ''s*('' @ bs @ ''d+)''),
       (''order #12345'', ''12345'')),
      ((example_query,
        ''#('' @ bs @ ''d+)''),
       (''#12345'', ''12345'')),
      ((example_query,
        ''[a-zA-Z0-9._%+-]+@[a-zA-Z0-9.-]+'' @ bs @ ''.[a-zA-Z]{2,}''),
       (''a@b.example'', [])),
      ((example_query,
        bs @ ''b(?:'' @ bs @ ''+'' @ bs @ ''d{1,3}[-.'' @ bs @ ''s]?)?(?:'' @ bs @ ''(?'' @ bs @ ''d{3}'' @ bs @ '')?[-.'' @ bs @ ''s]?)?(?:'' @ bs @ ''d{3}[-.'' @ bs @ ''s]?'' @ bs @ ''d{4})'' @ bs @ ''b''),
       (''555-123-4567'', [])),
      ((example_query,
        bs @ ''b'' @ bs @ ''d{3}[-.'' @ bs @ ''s]?'' @ bs @ ''d{3}[-.'' @ bs @ ''s]?'' @ bs @ ''d{4}'' @ bs @ ''b''),
       (''555-123-4567'', [])),
      ((example_query,
        ''address'' @ bs @ ''s*line'' @ bs @ ''s*2'' @ bs @ ''s*(?:is|:)?'' @ bs @ ''s+([^'' @ bs @ ''.,]+)''),
       (''address line 2 is Flat 4'', ''Flat 4'')),
      ((example_query,
        ''city'' @ bs @ ''s+(?:is|:)?'' @ bs @ ''s+([^'' @ bs @ ''.,]+)''),
       (''city is Pune'', ''Pune'')),
      ((example_address_query,
        ''('' @ bs @ ''d{6,})''),
       (''411001'', ''411001'')),
      ((example_address_query,
        ''address(?:'' @ bs @ ''s+'' @ bs @ ''d+)?'' @ bs @ ''s+(?:is|:)?'' @ bs @ ''s+([^'' @ bs @ ''.,]+)''),
       (''address is 5 Oak Rd'', ''5 Oak Rd'')),
      ((example_address_query,
        ''address'' @ bs @ ''s*line'' @ bs @ ''s*1'' @ bs @ ''s*(?:is|:)?'' @ bs @ ''s+([^'' @ bs @ ''.,]+)''),
       (''address line 1 is 12 Main St'', ''12 Main St'')),
      ((example_address_query,
        ''(?:last name|surname|family name)'' @ bs @ ''s+(?:is|:)?'' @ bs @ ''s+([^'' @ bs @ ''.,]+)''),
       (''last name is Rao'', ''Rao'')),
      ((example_address_query,
        ''country'' @ bs @ ''s+(?:is|:)?'' @ bs @ ''s+([^'' @ bs @ ''.,]+)''),
       (''country is India'', ''India'')),
      ((example_address_query,
        ''(?:zip|postal|zip code|postal code)'' @ bs @ ''s+(?:is|:)?'' @ bs @ ''s+([^'' @ bs @ ''.,'' @ bs @ ''s]+)''),
       (''zip is 411001'', ''411001'')),
      ((example_address_query,
        ''(?:state|province)'' @ bs @ ''s+(?:is|:)?'' @ bs @ ''s+([^'' @ bs @ ''.,]+)''),
       (''state is MH'', ''MH''))]"

definition example_regex :: regex where
  "example_regex =
     \<lparr>re_search = (\<lambda>pattern ignorecase subject. map_of example_matches (subject, pattern)),
      re_findall = (\<lambda>pattern ignorecase subject. [])\<rparr>"

text \<open>
  A call: the participant connects on the trunk number of the store Acme, asks about an
  order, is answered, asks for an agent, and the call ends after 65 seconds. The relational
  store is available and empty.
\<close>

definition example_redis :: redis where
  "example_redis key =
     (if key = ''store:+15550100''
      then Inr [(''store_name'', ''Acme''), (''store_details'', ''Acme sells shirts.''),
                (''shopify_access_token'', ''token''), (''shopify_base_url'', ''acme.myshopify.com'')]
      else Inr [])"

definition example_attributes :: "(string \<times> string) list" where
  "example_attributes = [(''sip.trunkPhoneNumber'', ''+15550100''), (''sip.phoneNumber'', ''+15550199'')]"

definition working_db :: db where
  "working_db = \<lparr>engine = True, connect_raises = False, execute_raises = False, Conversations = []\<rparr>"

definition example_session :: session where
  "example_session = new_session ''room'' ''session_0.0'' 0 working_db"

definition example_call :: "event list" where
  "example_call =
     [ParticipantConnected example_attributes,
      UserSpeechCommitted (Str ''Where is my order?''),
      AgentSpeechCommitted ''Let me check that order status for you.'',
      GetOrderStatus,
      UserSpeechCommitted (Str ''I want to Talk to Agent''),
      Shutdown 65000000]"

section \<open>Verified properties\<close>

subsection \<open>The intent classifier\<close>

lemma classify_response_in_intents: "classify_response r \<in> set intents"
  by (simp add: classify_response_def Let_def intents_def)

lemma classify_response_member:
  "lower (strip r) \<in> set intents \<Longrightarrow> classify_response r = lower (strip r)"
  by (simp add: classify_response_def Let_def)

lemma classify_response_fallback:
  "lower (strip r) \<notin> set intents \<Longrightarrow> classify_response r = ''store_info''"
  by (simp add: classify_response_def Let_def)

text \<open>
  C1. On a model response that is not a label, the claim has the classifier fall back to
  the label \<open>general\<close>, as the comment above the fallback says. The code returns
  \<open>store_info\<close>: for the response \<open>I am not sure\<close> the classifier answers
  \<open>store_info\<close>, not \<open>general\<close>.
\<close>

theorem classify_intent_fallback_is_store_info:
  "classify_intent (\<lambda>h q. Inr ''I am not sure'') [] ''Hello there'' = Inr ''store_info''
   \<and> classify_intent (\<lambda>h q. Inr ''I am not sure'') [] ''Hello there'' \<noteq> Inr ''general''"
  by (simp add: classify_intent_def classify_response_def Let_def intents_def lower_def
      strip_def isspace_def lower_char_def)

subsection \<open>The commerce client\<close>

lemma mapM_Inr_elem:
  "mapM f xs = Inr ys \<Longrightarrow> y \<in> set ys \<Longrightarrow> \<exists>x\<in>set xs. f x = Inr y"
  by (induction xs arbitrary: ys) (auto split: sum.splits)

lemma update_fresh: "k \<notin> fst ` set d \<Longrightarrow> AList.update k v d = d @ [(k, v)]"
  by (induction d) auto

lemma dict_merge_fresh:
  "distinct (map fst kvs) \<Longrightarrow> fst ` set d \<inter> fst ` set kvs = {} \<Longrightarrow> dict_merge d kvs = d @ kvs"
proof (induction kvs arbitrary: d)
  case Nil
  then show ?case by (simp add: dict_merge_def)
next
  case (Cons kv kvs)
  have fresh: "fst kv \<notin> fst ` set d" using Cons.prems(2) by auto
  have "dict_merge d (kv # kvs) = dict_merge (AList.update (fst kv) (snd kv) d) kvs"
    by (simp add: dict_merge_def)
  also have "\<dots> = dict_merge (d @ [kv]) kvs"
    using fresh by (simp add: update_fresh)
  also have "\<dots> = (d @ [kv]) @ kvs"
    using Cons.prems by (intro Cons.IH) auto
  finally show ?case by simp
qed

lemma mapM_Inr: "mapM (\<lambda>x. Inr (g x)) xs = Inr (map g xs)"
  by (induction xs) auto

lemma mapM_get_nondict:
  "\<forall>kvs. ord \<noteq> PDict kvs \<Longrightarrow> ks \<noteq> [] \<Longrightarrow>
   mapM (\<lambda>key. case py_get ord key PNone of Inl e \<Rightarrow> Inl e | Inr v \<Rightarrow> Inr (key, v)) ks = Inl AttributeError"
  by (cases ks; cases ord) auto

lemma distinct_required_fields: "distinct (''customer_id'' # required_fields)"
  by (simp add: required_fields_def)

lemma filter_order_dict:
  "filter_order cid (PDict kvs) =
     Inr (PDict ((''customer_id'', cid) #
        map (\<lambda>key. (key, case map_of kvs key of None \<Rightarrow> PNone | Some v \<Rightarrow> v)) required_fields))"
proof -
  have "dict_merge [(''customer_id'', cid)]
          (map (\<lambda>key. (key, case map_of kvs key of None \<Rightarrow> PNone | Some v \<Rightarrow> v)) required_fields)
        = [(''customer_id'', cid)] @
          map (\<lambda>key. (key, case map_of kvs key of None \<Rightarrow> PNone | Some v \<Rightarrow> v)) required_fields"
  proof (rule dict_merge_fresh)
    show "distinct (map fst (map (\<lambda>key. (key, case map_of kvs key of None \<Rightarrow> PNone | Some v \<Rightarrow> v)) required_fields))"
      using distinct_required_fields by (simp add: comp_def)
    show "fst ` set [(''customer_id'', cid)] \<inter>
          fst ` set (map (\<lambda>key. (key, case map_of kvs key of None \<Rightarrow> PNone | Some v \<Rightarrow> v)) required_fields) = {}"
      using distinct_required_fields by (simp add: image_comp comp_def)
  qed
  then show ?thesis by (simp add: filter_order_def mapM_Inr)
qed

lemma required_fields_nonempty: "required_fields \<noteq> []"
  by (simp add: required_fields_def)

lemma filter_order_nondict: "\<forall>kvs. ord \<noteq> PDict kvs \<Longrightarrow> filter_order cid ord = Inl AttributeError"
  by (simp add: filter_order_def mapM_get_nondict required_fields_nonempty)

lemma filter_order_keys:
  assumes "filter_order cid ord = Inr v"
  shows "\<exists>kvs. v = PDict kvs \<and> map fst kvs = ''customer_id'' # required_fields"
proof (cases "\<exists>kvs. ord = PDict kvs")
  case True
  then obtain kvs where "ord = PDict kvs" by blast
  with assms show ?thesis by (auto simp: filter_order_dict comp_def)
next
  case False
  then have "filter_order cid ord = Inl AttributeError" by (simp add: filter_order_nondict)
  with assms show ?thesis by simp
qed

lemma get_customer_orders_PList:
  assumes "fst (get_customer_orders c env cid) = PList os"
  shows "\<exists>raw. mapM (filter_order cid) raw = Inr os"
proof -
  have cred: "has_credentials c"
    using assms by (cases "has_credentials c") (simp_all add: get_customer_orders_def handle_auth_error_def)
  obtain r where r: "get_response env (OrdersOfCustomer cid) = Inr r"
    using assms cred
    by (cases "get_response env (OrdersOfCustomer cid)")
       (simp_all add: get_customer_orders_def handle_auth_error_def Let_def)
  obtain orders where o: "json_field r ''orders'' (PList []) = Inr orders"
    using assms cred r
    by (cases "json_field r ''orders'' (PList [])")
       (simp_all add: get_customer_orders_def handle_auth_error_def Let_def)
  obtain raw where raw: "py_iter orders = Inr raw"
    using assms cred r o
    by (cases "py_iter orders")
       (simp_all add: get_customer_orders_def handle_auth_error_def Let_def split: if_splits)
  have "mapM (filter_order cid) raw = Inr os"
    using assms cred r o raw
    by (cases "mapM (filter_order cid) raw")
       (simp_all add: get_customer_orders_def handle_auth_error_def Let_def split: if_splits)
  then show ?thesis ..
qed

lemma get_customer_orders_keys:
  assumes "fst (get_customer_orders c env cid) = PList os" and "ord \<in> set os"
  shows "\<exists>kvs. ord = PDict kvs \<and> map fst kvs = ''customer_id'' # required_fields"
proof -
  from get_customer_orders_PList [OF assms(1)]
  obtain raw where raw: "mapM (filter_order cid) raw = Inr os" ..
  from mapM_Inr_elem [OF raw assms(2)]
  obtain x where "filter_order cid x = Inr ord" by (elim bexE)
  then show ?thesis by (rule filter_order_keys)
qed

lemma py_iter_truthy_nonempty: "truthy orders \<Longrightarrow> py_iter orders = Inr raw \<Longrightarrow> raw \<noteq> []"
  by (cases orders) auto

lemma mapM_length: "mapM f xs = Inr ys \<Longrightarrow> length ys = length xs"
  by (induction xs arbitrary: ys) (auto split: sum.splits)

lemma get_customer_orders_shape:
  "fst (get_customer_orders c env cid) = PNone \<or>
   (\<exists>raw os. raw \<noteq> [] \<and> mapM (filter_order cid) raw = Inr os \<and> fst (get_customer_orders c env cid) = PList os)"
proof (cases "has_credentials c")
  case False
  then show ?thesis by (simp add: get_customer_orders_def handle_auth_error_def)
next
  case cred: True
  show ?thesis
  proof (cases "get_response env (OrdersOfCustomer cid)")
    case (Inl e)
    with cred show ?thesis by (simp add: get_customer_orders_def handle_auth_error_def)
  next
    case r: (Inr r)
    show ?thesis
    proof (cases "json_field r ''orders'' (PList [])")
      case (Inl e)
      with cred r show ?thesis by (simp add: get_customer_orders_def handle_auth_error_def)
    next
      case o: (Inr orders)
      show ?thesis
      proof (cases "truthy orders")
        case False
        with cred r o show ?thesis by (simp add: get_customer_orders_def handle_auth_error_def)
      next
        case t: True
        show ?thesis
        proof (cases "py_iter orders")
          case (Inl e)
          with cred r o t show ?thesis by (simp add: get_customer_orders_def handle_auth_error_def)
        next
          case raw: (Inr raw)
          have ne: "raw \<noteq> []" using t raw by (rule py_iter_truthy_nonempty)
          show ?thesis
          proof (cases "mapM (filter_order cid) raw")
            case (Inl e)
            with cred r o t raw show ?thesis by (simp add: get_customer_orders_def handle_auth_error_def)
          next
            case (Inr os)
            with cred r o t raw have "fst (get_customer_orders c env cid) = PList os"
              by (simp add: get_customer_orders_def handle_auth_error_def)
            with ne Inr show ?thesis by blast
          qed
        qed
      qed
    qed
  qed
qed

text \<open>
  C4 (as amended). \<open>get_customer_orders\<close> returns \<open>None\<close> or a non-empty list of
  dictionaries whose keys are exactly \<open>customer_id\<close> followed by the fields of
  \<open>required_fields\<close>, of which there are 20; \<open>get_all_orders\<close> returns the
  \<open>orders\<close> value of the response as it is, without filtering.
\<close>

theorem get_customer_orders_allowlist:
  "(fst (get_customer_orders c env cid) = PNone \<or>
    (\<exists>os. fst (get_customer_orders c env cid) = PList os \<and> os \<noteq> [] \<and>
       (\<forall>ord\<in>set os. \<exists>kvs. ord = PDict kvs \<and> map fst kvs = ''customer_id'' # required_fields)))
   \<and> length required_fields = 20
   \<and> (has_credentials c \<and> get_response env AllOrders = Inr r \<and> json_field r ''orders'' (PList []) = Inr v
        \<longrightarrow> fst (get_all_orders c env) = v)"
proof (intro conjI)
  show "fst (get_customer_orders c env cid) = PNone \<or>
    (\<exists>os. fst (get_customer_orders c env cid) = PList os \<and> os \<noteq> [] \<and>
       (\<forall>ord\<in>set os. \<exists>kvs. ord = PDict kvs \<and> map fst kvs = ''customer_id'' # required_fields))"
  proof (cases "fst (get_customer_orders c env cid) = PNone")
    case True
    then show ?thesis ..
  next
    case False
    with get_customer_orders_shape [of c env cid]
    obtain raw os where ne: "raw \<noteq> []" and m: "mapM (filter_order cid) raw = Inr os"
      and res: "fst (get_customer_orders c env cid) = PList os" by blast
    from mapM_length [OF m] ne have "os \<noteq> []" by auto
    moreover have "\<forall>ord\<in>set os. \<exists>kvs. ord = PDict kvs \<and> map fst kvs = ''customer_id'' # required_fields"
      using get_customer_orders_keys [OF res] by blast
    ultimately show ?thesis using res by blast
  qed
  show "length required_fields = 20" by (simp add: required_fields_def)
  show "has_credentials c \<and> get_response env AllOrders = Inr r \<and> json_field r ''orders'' (PList []) = Inr v
        \<longrightarrow> fst (get_all_orders c env) = v"
    by (simp add: get_all_orders_def handle_auth_error_def)
qed

theorem get_customer_orders_allowlist_witness:
  "fst (get_customer_orders example_collector orders_service (PInt 7)) =
     PList [PDict ((''customer_id'', PInt 7) # (''id'', PInt 1) # map (\<lambda>k. (k, PNone)) (tl required_fields))]
   \<and> map fst ((''customer_id'', PInt 7) # (''id'', PInt 1) # map (\<lambda>k. (k, PNone)) (tl required_fields))
       = ''customer_id'' # required_fields
   \<and> has_credentials example_collector
   \<and> fst (get_all_orders example_collector orders_service) = PList [PDict [(''id'', PInt 1), (''note'', PStr ''gift'')]]"
  using get_customer_orders_allowlist [of example_collector orders_service "PInt 7"
      "ok_response (PDict [(''orders'', PList [PDict [(''id'', PInt 1), (''note'', PStr ''gift'')]])])"
      "PList [PDict [(''id'', PInt 1), (''note'', PStr ''gift'')]]"]
  by (simp add: example_collector_def orders_service_def ok_response_def get_customer_orders_def handle_auth_error_def has_credentials_def
     ShopifyDataCollector_def json_field_def raise_for_status_def filter_order_dict required_fields_def)

text \<open>
  C4 as stated fails: \<open>get_all_orders\<close> passes the field \<open>note\<close> through, which is
  not in \<open>required_fields\<close>, and \<open>required_fields\<close> has 20 entries, not 19.
\<close>

theorem get_all_orders_unfiltered_counterexample:
  "fst (get_all_orders example_collector orders_service) =
     PList [PDict [(''id'', PInt 1), (''note'', PStr ''gift'')]]
   \<and> ''note'' \<notin> set (''customer_id'' # required_fields)
   \<and> length required_fields \<noteq> 19"
  by (simp add: example_collector_def orders_service_def ok_response_def get_all_orders_def
      handle_auth_error_def has_credentials_def ShopifyDataCollector_def json_field_def
      raise_for_status_def required_fields_def)

lemma update_order_trace:
  "(fst (update_order c env oid em ph ad1 ad2 cty lnm prv ctr zp) = PNone \<and>
    (snd (update_order c env oid em ph ad1 ad2 cty lnm prv ctr zp) = [] \<or>
     snd (update_order c env oid em ph ad1 ad2 cty lnm prv ctr zp) = [GET (OrderById oid)]))
   \<or> (has_credentials c \<and>
       (\<exists>r od fs. get_response env (OrderById oid) = Inr r \<and> json_field r ''order'' PNone = Inr od \<and> truthy od
          \<and> py_get od ''fulfillment_status'' PNone = Inr fs \<and> fs \<noteq> PStr ''fulfilled''
          \<and> py_get od ''cancelled_at'' PNone = Inr PNone)
       \<and> snd (update_order c env oid em ph ad1 ad2 cty lnm prv ctr zp) =
           [GET (OrderById oid), PUT (OrderById oid) (update_payload oid em ph ad1 ad2 cty lnm prv ctr zp)])"
proof (cases "has_credentials c")
  case False
  then show ?thesis by (simp add: update_order_def handle_auth_error_def)
next
  case cred: True
  show ?thesis
  proof (cases "get_response env (OrderById oid)")
    case (Inl err)
    with cred show ?thesis by (simp add: update_order_def handle_auth_error_def)
  next
    case r: (Inr r)
    show ?thesis
    proof (cases "json_field r ''order'' PNone")
      case (Inl err)
      with cred r show ?thesis by (simp add: update_order_def handle_auth_error_def)
    next
      case od: (Inr od)
      show ?thesis
      proof (cases "truthy od")
        case False
        with cred r od show ?thesis by (simp add: update_order_def handle_auth_error_def)
      next
        case t: True
        show ?thesis
        proof (cases "py_get od ''fulfillment_status'' PNone")
          case (Inl err)
          with cred r od t show ?thesis by (simp add: update_order_def handle_auth_error_def)
        next
          case fs: (Inr fs)
          show ?thesis
          proof (cases "py_get od ''cancelled_at'' PNone")
            case (Inl err)
            with cred r od t fs show ?thesis by (simp add: update_order_def handle_auth_error_def)
          next
            case ca: (Inr ca)
            show ?thesis
            proof (cases "fs = PStr ''fulfilled'' \<or> ca \<noteq> PNone")
              case True
              with cred r od t fs ca show ?thesis
                by (auto simp: update_order_def handle_auth_error_def Let_def)
            next
              case False
              with cred r od t fs ca show ?thesis
                by (simp add: update_order_def handle_auth_error_def Let_def)
            qed
          qed
        qed
      qed
    qed
  qed
qed

text \<open>
  C7. When the fetched order has \<open>fulfillment_status\<close> equal to \<open>fulfilled\<close> or a
  \<open>cancelled_at\<close> other than \<open>None\<close>, \<open>update_order\<close> returns \<open>None\<close> and
  issues no PUT request. A PUT request is issued only with credentials, after a fetch that
  returned truthy order data that is neither fulfilled nor cancelled.
\<close>

theorem update_order_refusal:
  "(get_response env (OrderById oid) = Inr r \<and> json r = Inr j \<and> py_get j ''order'' PNone = Inr od \<and>
      (py_get od ''fulfillment_status'' PNone = Inr (PStr ''fulfilled'') \<or>
       (\<exists>v. py_get od ''cancelled_at'' PNone = Inr v \<and> v \<noteq> PNone))
    \<longrightarrow> fst (update_order c env oid em ph ad1 ad2 cty lnm prv ctr zp) = PNone \<and>
        (\<forall>rq\<in>set (snd (update_order c env oid em ph ad1 ad2 cty lnm prv ctr zp)). \<not> is_put rq))
   \<and> ((\<exists>rq\<in>set (snd (update_order c env oid em ph ad1 ad2 cty lnm prv ctr zp)). is_put rq)
    \<longrightarrow> has_credentials c \<and>
        (\<exists>r' od' fs. get_response env (OrderById oid) = Inr r' \<and> json_field r' ''order'' PNone = Inr od'
           \<and> truthy od' \<and> py_get od' ''fulfillment_status'' PNone = Inr fs \<and> fs \<noteq> PStr ''fulfilled''
           \<and> py_get od' ''cancelled_at'' PNone = Inr PNone))"
proof (intro conjI impI)
  assume h: "get_response env (OrderById oid) = Inr r \<and> json r = Inr j \<and> py_get j ''order'' PNone = Inr od \<and>
      (py_get od ''fulfillment_status'' PNone = Inr (PStr ''fulfilled'') \<or>
       (\<exists>v. py_get od ''cancelled_at'' PNone = Inr v \<and> v \<noteq> PNone))"
  have no: "\<not> (\<exists>r' od' fs. get_response env (OrderById oid) = Inr r' \<and> json_field r' ''order'' PNone = Inr od'
           \<and> truthy od' \<and> py_get od' ''fulfillment_status'' PNone = Inr fs \<and> fs \<noteq> PStr ''fulfilled''
           \<and> py_get od' ''cancelled_at'' PNone = Inr PNone)"
    using h by (auto simp: json_field_def split: sum.splits)
  from update_order_trace [of c env oid em ph ad1 ad2 cty lnm prv ctr zp] no
  have "fst (update_order c env oid em ph ad1 ad2 cty lnm prv ctr zp) = PNone \<and>
    (snd (update_order c env oid em ph ad1 ad2 cty lnm prv ctr zp) = [] \<or>
     snd (update_order c env oid em ph ad1 ad2 cty lnm prv ctr zp) = [GET (OrderById oid)])"
    by blast
  then show "fst (update_order c env oid em ph ad1 ad2 cty lnm prv ctr zp) = PNone"
    and "\<forall>rq\<in>set (snd (update_order c env oid em ph ad1 ad2 cty lnm prv ctr zp)). \<not> is_put rq"
    by auto
next
  assume "\<exists>rq\<in>set (snd (update_order c env oid em ph ad1 ad2 cty lnm prv ctr zp)). is_put rq"
  then have "snd (update_order c env oid em ph ad1 ad2 cty lnm prv ctr zp) \<noteq> []"
    and "snd (update_order c env oid em ph ad1 ad2 cty lnm prv ctr zp) \<noteq> [GET (OrderById oid)]"
    by auto
  with update_order_trace [of c env oid em ph ad1 ad2 cty lnm prv ctr zp]
  show "has_credentials c"
    and "\<exists>r' od' fs. get_response env (OrderById oid) = Inr r' \<and> json_field r' ''order'' PNone = Inr od'
           \<and> truthy od' \<and> py_get od' ''fulfillment_status'' PNone = Inr fs \<and> fs \<noteq> PStr ''fulfilled''
           \<and> py_get od' ''cancelled_at'' PNone = Inr PNone"
    by blast+
qed

theorem update_order_refusal_witness:
  "update_order example_collector (order_service fulfilled_order) ''1'' (Some ''a@b.example'')
      None None None None None None None None = (PNone, [GET (OrderById ''1'')])
   \<and> snd (update_order example_collector (order_service open_order) ''2'' (Some ''a@b.example'')
      None None None None None None None None) =
       [GET (OrderById ''2''),
        PUT (OrderById ''2'')
          (PDict [(''order'', PDict [(''id'', PStr ''2''), (''email'', PStr ''a@b.example''),
                                     (''contact_email'', PStr ''a@b.example'')])])]
   \<and> has_credentials example_collector \<and> truthy open_order"
  using update_order_refusal [of "order_service fulfilled_order" "''1''"
      "ok_response (PDict [(''order'', fulfilled_order)])" "PDict [(''order'', fulfilled_order)]"
      fulfilled_order example_collector "Some ''a@b.example''" None None None None None None None None]
    update_order_refusal [of "order_service open_order" "''2''"
      "ok_response (PDict [(''order'', open_order)])" "PDict [(''order'', open_order)]"
      open_order example_collector "Some ''a@b.example''" None None None None None None None None]
  by (simp add: update_order_def handle_auth_error_def has_credentials_def example_collector_def
      ShopifyDataCollector_def order_service_def ok_response_def json_field_def raise_for_status_def
      fulfilled_order_def open_order_def update_payload_def dict_merge_def Let_def)

subsection \<open>The retrieval layer\<close>

lemma tag_filter_not_constructed:
  "tags = Some ts \<Longrightarrow> ts \<noteq> [] \<Longrightarrow> \<not> list_all (constructs client) (tag_filter tags)"
  by (simp add: tag_filter_def constructs_def)

lemma search_products_with_tags:
  "tags = Some ts \<Longrightarrow> ts \<noteq> [] \<Longrightarrow>
   search_products self query store product_type vendor tags limit thr = ([], [])"
  by (simp add: search_products_def tag_filter_not_constructed Let_def split: sum.splits)

lemma search_products_calls:
  "call \<in> set (snd (search_products self query store product_type vendor tags limit thr)) \<Longrightarrow>
   \<exists>emb conds. call = Search (product_collection self) emb
      (Some (Filter (FieldCondition ''type'' (PStr ''shopify_product'') # conds) [] None))
      limit (Some thr)"
  by (auto simp: search_products_def product_filter_def product_conditions_def Let_def
      split: sum.splits if_splits)

lemma search_documents_calls:
  "call \<in> set (snd (search_documents self query store doc_type source limit thr)) \<Longrightarrow>
   \<exists>emb. call = Search (document_collection self) emb
            (document_filter store doc_type source) limit (Some thr)"
  by (auto simp: search_documents_def Let_def split: sum.splits if_splits)

text \<open>
  C5. The claim has \<open>search_products\<close> search with an OR-filter over the given tags, as
  the docstring (\<open>Filter by one or more tags\<close>) and the comments on the tag filter say. The
  code gives that filter the field \<open>should_score\<close>, which the client's model forbids: the
  construction raises, the handler returns the empty list, and no search is issued. On an
  index that holds a product of the store with the tag \<open>blue\<close> and a score above the
  threshold, the search with \<open>tags = ['blue']\<close> returns nothing, while the same search
  without tags returns the product.
\<close>

theorem search_products_with_tags_finds_nothing:
  "search_products (new_QdrantSearcher example_index) ''blue shirt'' (Some ''acme'') None None
      (Some [''blue'']) 3 (6 / 10) = ([], [])
   \<and> fst (search_products (new_QdrantSearcher example_index) ''blue shirt'' (Some ''acme'') None None
        None 3 (6 / 10)) =
       [PDict [(''id'', PInt 1), (''score'', PFloat (9 / 10)), (''title'', PStr ''Blue shirt''),
               (''product_id'', PStr []), (''vendor'', PStr []), (''product_type'', PStr []),
               (''tags'', PList [PStr ''blue'', PStr ''shirt'']), (''store'', PStr ''acme'')]]
   \<and> matches (FieldCondition ''tags'' (PStr ''blue'')) (payload_of (hd example_points))"
proof -
  have t: "search_products (new_QdrantSearcher example_index) ''blue shirt'' (Some ''acme'') None None
      (Some [''blue'']) 3 (6 / 10) = ([], [])"
    by (simp add: search_products_with_tags)
  have n: "fst (search_products (new_QdrantSearcher example_index) ''blue shirt'' (Some ''acme'') None None
        None 3 (6 / 10)) =
       [PDict [(''id'', PInt 1), (''score'', PFloat (9 / 10)), (''title'', PStr ''Blue shirt''),
               (''product_id'', PStr []), (''vendor'', PStr []), (''product_type'', PStr []),
               (''tags'', PList [PStr ''blue'', PStr ''shirt'']), (''store'', PStr ''acme'')]]"
    by (simp add: search_products_def new_QdrantSearcher_def example_index_def example_points_def
        product_filter_def product_conditions_def tag_filter_def constructs_def admitted_def
        payload_of_def format_product_def dict_get_def)
  have m: "matches (FieldCondition ''tags'' (PStr ''blue'')) (payload_of (hd example_points))"
    by (simp add: example_points_def payload_of_def)
  from t n m show ?thesis by simp
qed

lemma search_documents_reads:
  "list_all is_read (snd (search_documents self query store doc_type source limit thr))"
  by (simp add: search_documents_def Let_def split: sum.splits)

lemma search_products_reads:
  "list_all is_read (snd (search_products self query store product_type vendor tags limit thr))"
  by (simp add: search_products_def Let_def split: sum.splits)

lemma get_store_details_reads: "list_all is_read (snd (get_store_details self store))"
  by (simp add: get_store_details_def Let_def split: sum.splits option.splits)

lemma search_by_metadata_reads:
  "list_all is_read (snd (search_by_metadata self field val collection_name limit))"
  by (simp add: search_by_metadata_def Let_def split: sum.splits)

lemma scroll_loop_reads: "list_all is_read (snd (scroll_loop self n offset store_names))"
proof (induction n arbitrary: offset store_names)
  case 0
  show ?case by simp
next
  case (Suc n)
  show ?case
  proof (cases "scroll (qdrant_client self) (document_collection self) None 1000 offset")
    case (Inl e)
    then show ?thesis by simp
  next
    case page: (Inr page)
    show ?thesis
    proof (cases "add_store_names store_names (fst page)")
      case (Inl e)
      with page show ?thesis by simp
    next
      case (Inr names)
      with page Suc.IH [of "snd page" names] show ?thesis by (simp add: Let_def)
    qed
  qed
qed

text \<open>
  C9. Every call that a query operation of \<open>QdrantSearcher\<close> makes on the index is a
  search or a scroll, whatever the services answer and however long the scroll loop of
  \<open>get_all_store_names\<close> runs.
\<close>

theorem retrieval_is_read_only:
  "list_all is_read (snd (search_documents self query store doc_type source limit thr))
   \<and> list_all is_read (snd (search_products self query store product_type vendor tags limit thr))
   \<and> list_all is_read (snd (search_all self query store limit thr))
   \<and> list_all is_read (snd (get_store_details self store))
   \<and> list_all is_read (snd (search_by_metadata self field val collection_name limit))
   \<and> list_all is_read (snd (get_all_store_names self n))"
  by (simp add: search_documents_reads search_products_reads get_store_details_reads
      search_by_metadata_reads scroll_loop_reads search_all_def get_all_store_names_def Let_def)

theorem retrieval_is_read_only_witness:
  "snd (get_store_details (new_QdrantSearcher example_index) (Some ''acme'')) =
     [Scroll ''document_store'' (Some (Filter [FieldCondition ''store'' (PStr ''acme'')] [] None)) 100 None,
      Search ''document_store'' [1, 0] (Some (Filter [FieldCondition ''store'' (PStr ''acme'')] [] None)) 5 None] 
   \<and> snd (search_all (new_QdrantSearcher example_index) ''blue shirt'' (Some ''acme'') 10 (7 / 10)) =
     [Search ''document_store'' [1, 0] (Some (Filter [FieldCondition ''store'' (PStr ''acme'')] [] None))
        10 (Some (7 / 10)),
      Search ''softmaxai-parshva.myshopify.com'' [1, 0]
        (Some (Filter [FieldCondition ''type'' (PStr ''shopify_product''),
                       FieldCondition ''store'' (PStr ''acme'')] [] None))
        10 (Some (7 / 10))] 
   \<and> get_all_store_names (new_QdrantSearcher example_index) 3 =
     (Some [PStr ''acme''], [Scroll ''document_store'' None 1000 None]) 
   \<and> snd (search_by_metadata (new_QdrantSearcher example_index) ''store'' (PStr ''acme'') None 100) =
     [Scroll ''document_store'' (Some (Filter [FieldCondition ''store'' (PStr ''acme'')] [] None)) 100 None]"
proof -
  have details: "snd (get_store_details (new_QdrantSearcher example_index) (Some ''acme'')) =
     [Scroll ''document_store'' (Some (Filter [FieldCondition ''store'' (PStr ''acme'')] [] None)) 100 None,
      Search ''document_store'' [1, 0] (Some (Filter [FieldCondition ''store'' (PStr ''acme'')] [] None)) 5 None]"
    by (simp add: get_store_details_def constructs_def store_value_def text_1000_def new_QdrantSearcher_def example_index_def example_points_def admitted_def payload_of_def dict_get_def Let_def)
  have both: "snd (search_all (new_QdrantSearcher example_index) ''blue shirt'' (Some ''acme'') 10 (7 / 10)) =
     [Search ''document_store'' [1, 0] (Some (Filter [FieldCondition ''store'' (PStr ''acme'')] [] None))
        10 (Some (7 / 10)),
      Search ''softmaxai-parshva.myshopify.com'' [1, 0]
        (Some (Filter [FieldCondition ''type'' (PStr ''shopify_product''),
                       FieldCondition ''store'' (PStr ''acme'')] [] None))
        10 (Some (7 / 10))]"
    by (simp add: search_all_def search_documents_def search_products_def document_filter_def
        document_conditions_def filter_accepted_def constructs_def product_filter_def product_conditions_def
        tag_filter_def format_document_def format_product_def new_QdrantSearcher_def example_index_def example_points_def admitted_def payload_of_def dict_get_def Let_def)
  have names: "get_all_store_names (new_QdrantSearcher example_index) 3 =
     (Some [PStr ''acme''], [Scroll ''document_store'' None 1000 None])"
    by (simp add: get_all_store_names_def set_add_def py_eq_def py_sorted_def numeral_3_eq_3 new_QdrantSearcher_def example_index_def example_points_def admitted_def payload_of_def dict_get_def Let_def)
  have metadata: "snd (search_by_metadata (new_QdrantSearcher example_index) ''store'' (PStr ''acme'') None 100) =
     [Scroll ''document_store'' (Some (Filter [FieldCondition ''store'' (PStr ''acme'')] [] None)) 100 None]"
    by (simp add: search_by_metadata_def constructs_def format_point_def dict_merge_def new_QdrantSearcher_def example_index_def example_points_def admitted_def payload_of_def dict_get_def Let_def)
  from retrieval_is_read_only [where self = "new_QdrantSearcher example_index"
      and query = "''blue shirt''" and store = "Some ''acme''" and doc_type = None
      and source = None and limit = 10 and thr = "7 / 10" and product_type = None and vendor = None
      and tags = None and field = "''store''" and val = "PStr ''acme''" and collection_name = None
      and n = 3] details both names metadata
  show ?thesis by blast
qed

subsection \<open>Entity extraction\<close>

lemma keys_dict_merge: "fst ` set (dict_merge d1 d2) = fst ` set d1 \<union> fst ` set d2"
proof (induction d2 arbitrary: d1)
  case Nil
  show ?case by (simp add: dict_merge_def)
next
  case (Cons kv d2)
  have "dict_merge d1 (kv # d2) = dict_merge (AList.update (fst kv) (snd kv) d1) d2"
    by (simp add: dict_merge_def)
  then show ?case by (simp add: Cons.IH dom_update Un_commute insert_commute)
qed

lemma map_of_dict_merge_other:
  "k \<notin> fst ` set d2 \<Longrightarrow> map_of (dict_merge d1 d2) k = map_of d1 k"
proof (induction d2 arbitrary: d1)
  case Nil
  show ?case by (simp add: dict_merge_def)
next
  case (Cons kv d2)
  have "dict_merge d1 (kv # d2) = dict_merge (AList.update (fst kv) (snd kv) d1) d2"
    by (simp add: dict_merge_def)
  with Cons show ?case by (auto simp: update_conv')
qed

lemma keys_set_if: "fst ` set (set_if key v entities) \<subseteq> insert key (fst ` set entities)"
  by (auto simp: set_if_def dom_update)

lemma map_of_set_if:
  "map_of (set_if key v entities) k =
     (if k = key \<and> truthy_str v then map_option PStr v else map_of entities k)"
  by (cases v) (auto simp: set_if_def update_conv')

lemma keys_set_group1:
  "fst ` set (set_group1 re query pattern key info) \<subseteq> insert key (fst ` set info)"
  by (auto simp: set_group1_def dom_update split: option.splits)

lemma keys_address_patterns:
  "fst ` set (foldl (\<lambda>info pk. set_group1 re query (fst pk) (snd pk) info) info pks)
   \<subseteq> snd ` set pks \<union> fst ` set info"
proof (induction pks arbitrary: info)
  case Nil
  show ?case by simp
next
  case (Cons pk pks)
  from Cons.IH [of "set_group1 re query (fst pk) (snd pk) info"]
    keys_set_group1 [of re query "fst pk" "snd pk" info]
  show ?case by auto
qed

lemma keys_extract_address_info_regex:
  "fst ` set (extract_address_info_regex re query) \<subseteq> address_keys"
proof -
  have a: "fst ` set (foldl (\<lambda>info pk. set_group1 re query (fst pk) (snd pk) info) [] address_patterns)
           \<subseteq> address_keys"
    using keys_address_patterns [of re query "[]" address_patterns]
    by (auto simp: address_patterns_def address_keys_def)
  have step: "fst ` set (set_group1 re query p k info) \<subseteq> address_keys"
    if "fst ` set info \<subseteq> address_keys" and "k \<in> address_keys" for p k info
  proof -
    from that have "insert k (fst ` set info) \<subseteq> address_keys" by simp
    with keys_set_group1 [of re query p k info] show ?thesis by (rule subset_trans)
  qed
  show ?thesis
    unfolding extract_address_info_regex_def Let_def
    by (intro step a) (simp_all add: address_keys_def)
qed

lemma map_of_dict_merge:
  "distinct (map fst d2) \<Longrightarrow>
   map_of (dict_merge d1 d2) k = (case map_of d2 k of Some v \<Rightarrow> Some v | None \<Rightarrow> map_of d1 k)"
proof (induction d2 arbitrary: d1)
  case Nil
  show ?case by (simp add: dict_merge_def)
next
  case (Cons kv d2)
  have step: "dict_merge d1 (kv # d2) = dict_merge (AList.update (fst kv) (snd kv) d1) d2"
    by (simp add: dict_merge_def)
  from Cons.prems have d: "distinct (map fst d2)" and fresh: "fst kv \<notin> fst ` set d2"
    by simp_all
  from fresh have none: "map_of d2 (fst kv) = None"
    by (simp add: map_of_eq_None_iff)
  show ?case
    unfolding step Cons.IH [OF d]
    using none by (cases kv) (auto simp: update_conv' split: option.splits)
qed

lemma map_of_set_group1:
  "map_of (set_group1 re query pattern key info) k =
     (if k = key
      then (case stored_group1 re query pattern of Some v \<Rightarrow> Some v | None \<Rightarrow> map_of info k)
      else map_of info k)"
  by (auto simp: set_group1_def stored_group1_def update_conv' split: option.splits)

lemma distinct_set_group1:
  "distinct (map fst info) \<Longrightarrow> distinct (map fst (set_group1 re query pattern key info))"
  by (simp add: set_group1_def distinct_update split: option.splits)

lemma distinct_extract_address_info_regex:
  "distinct (map fst (extract_address_info_regex re query))"
  unfolding extract_address_info_regex_def Let_def
  by (intro distinct_set_group1) (simp add: address_patterns_def distinct_set_group1)

lemma address_info_entries:
  "map_of (extract_address_info_regex re query) ''address1'' =
     (case stored_group1 re query (fst (address_patterns ! 1)) of
        Some v \<Rightarrow> Some v
      | None \<Rightarrow> stored_group1 re query (fst (address_patterns ! 0)))"
  "map_of (extract_address_info_regex re query) ''address2'' =
     stored_group1 re query (fst (address_patterns ! 2))"
  "map_of (extract_address_info_regex re query) ''city'' =
     stored_group1 re query (value_pattern ''city'')"
  "map_of (extract_address_info_regex re query) ''last_name'' =
     stored_group1 re query (value_pattern ''(?:last name|surname|family name)'')"
  "map_of (extract_address_info_regex re query) ''country'' =
     stored_group1 re query (value_pattern ''country'')"
  "map_of (extract_address_info_regex re query) ''zip'' =
     stored_group1 re query
       (''(?:zip|postal|zip code|postal code)'' @ bs @ ''s+(?:is|:)?'' @ bs
          @ ''s+([^'' @ bs @ ''.,'' @ bs @ ''s]+)'')"
  "map_of (extract_address_info_regex re query) ''province_code'' =
     stored_group1 re query (value_pattern ''(?:state|province)'')"
  by (simp_all add: extract_address_info_regex_def Let_def address_patterns_def map_of_set_group1
      split: option.splits)

lemma address_keys_fresh:
  "''order_id'' \<notin> address_keys" "''email'' \<notin> address_keys" "''phone'' \<notin> address_keys"
  by (simp_all add: address_keys_def)

lemma update_order_regex_entries:
  "\<exists>kvs. extract_update_order_entities_regex re query = PDict kvs
     \<and> fst ` set kvs \<subseteq> {''order_id'', ''email'', ''phone''} \<union> address_keys
     \<and> map_of kvs ''order_id'' = stored_if (extract_order_id_regex re query)
     \<and> map_of kvs ''email'' = stored_if (extract_email_regex re query)
     \<and> map_of kvs ''phone'' = stored_if (extract_phone_regex re query)
     \<and> (\<forall>k\<in>address_keys. map_of kvs k = map_of (extract_address_info_regex re query) k)"
proof -
  let ?e1 = "set_if ''order_id'' (extract_order_id_regex re query) []"
  let ?e2 = "set_if ''email'' (extract_email_regex re query) ?e1"
  let ?e3 = "set_if ''phone'' (extract_phone_regex re query) ?e2"
  let ?a = "extract_address_info_regex re query"
  let ?kvs = "if ?a \<noteq> [] then dict_merge ?e3 ?a else ?e3"
  have res: "extract_update_order_entities_regex re query = PDict ?kvs"
    by (simp add: extract_update_order_entities_regex_def Let_def)
  have ka: "fst ` set ?a \<subseteq> address_keys" by (rule keys_extract_address_info_regex)
  have k3: "fst ` set ?e3 \<subseteq> {''order_id'', ''email'', ''phone''}"
    using keys_set_if [of "''phone''" "extract_phone_regex re query" ?e2]
      keys_set_if [of "''email''" "extract_email_regex re query" ?e1]
      keys_set_if [of "''order_id''" "extract_order_id_regex re query" "[]"]
    by auto
  have keys: "fst ` set ?kvs \<subseteq> {''order_id'', ''email'', ''phone''} \<union> address_keys"
    using ka k3 by (auto simp: keys_dict_merge)
  have other: "map_of ?kvs k = map_of ?e3 k" if "k \<notin> address_keys" for k
  proof -
    from that ka have "k \<notin> fst ` set ?a" by auto
    then show ?thesis by (simp add: map_of_dict_merge_other)
  qed
  have m1: "map_of ?kvs ''order_id'' = stored_if (extract_order_id_regex re query)"
    by (simp only: other [OF address_keys_fresh(1)]) (simp add: map_of_set_if stored_if_def)
  have m2: "map_of ?kvs ''email'' = stored_if (extract_email_regex re query)"
    by (simp only: other [OF address_keys_fresh(2)]) (simp add: map_of_set_if stored_if_def)
  have m3: "map_of ?kvs ''phone'' = stored_if (extract_phone_regex re query)"
    by (simp only: other [OF address_keys_fresh(3)]) (simp add: map_of_set_if stored_if_def)
  have addr: "map_of ?kvs k = map_of ?a k" if k: "k \<in> address_keys" for k
  proof -
    from k have "k \<noteq> ''order_id''" "k \<noteq> ''email''" "k \<noteq> ''phone''"
      using address_keys_fresh by auto
    then have e3: "map_of ?e3 k = None" by (simp add: map_of_set_if)
    show ?thesis
    proof (cases "?a = []")
      case True
      with e3 show ?thesis by simp
    next
      case False
      with e3 show ?thesis
        by (simp add: map_of_dict_merge [OF distinct_extract_address_info_regex] split: option.splits)
    qed
  qed
  from res keys m1 m2 m3 addr show ?thesis by blast
qed

text \<open>
  C3. For the intents \<open>order\<close>, \<open>update_order\<close> and \<open>cancel_order\<close>, when the
  extraction call raises, \<open>extract_entities\<close> returns (and does not raise) the result of
  the regex extraction of that intent. For \<open>order\<close> and \<open>cancel_order\<close> this is the
  group of the first matching order-ID pattern under the key \<open>order_id\<close>. For
  \<open>update_order\<close> it holds in addition, and under no other key: the match of the email
  pattern; the first match of the phone patterns, reduced to its digits and \<open>+\<close>; and
  for each address fragment the stripped group of its pattern (for \<open>address1\<close> the
  address-line-1 pattern before the plain address pattern).
\<close>

theorem extract_entities_regex_fallback:
  "(chain OrderPrompt query = Inl e \<longrightarrow>
      extract_entities chain re query ''order'' = Inr (extract_order_entities_regex re query))
   \<and> (chain UpdateOrderPrompt query = Inl e \<longrightarrow>
      extract_entities chain re query ''update_order'' = Inr (extract_update_order_entities_regex re query))
   \<and> (chain CancelOrderPrompt query = Inl e \<longrightarrow>
      extract_entities chain re query ''cancel_order'' = Inr (extract_cancel_order_entities_regex re query))
   \<and> extract_order_entities_regex re query =
       PDict (set_if ''order_id'' (map_option snd (first_match re order_id_patterns True query)) [])
   \<and> extract_cancel_order_entities_regex re query =
       PDict (set_if ''order_id'' (map_option snd (first_match re order_id_patterns True query)) [])
   \<and> (\<exists>kvs. extract_update_order_entities_regex re query = PDict kvs
     \<and> fst ` set kvs \<subseteq> {''order_id'', ''email'', ''phone''} \<union> address_keys
     \<and> map_of kvs ''order_id'' =
           stored_if (map_option snd (first_match re order_id_patterns True query))
     \<and> map_of kvs ''email'' =
           stored_if (map_option fst (re_search re email_pattern False query))
     \<and> map_of kvs ''phone'' =
           stored_if (map_option (\<lambda>m. clean_phone (fst m)) (first_match re phone_patterns False query))
     \<and> map_of kvs ''address1'' =
           (case stored_group1 re query (fst (address_patterns ! 1)) of
              Some v \<Rightarrow> Some v
            | None \<Rightarrow> stored_group1 re query (fst (address_patterns ! 0)))
     \<and> map_of kvs ''address2'' = stored_group1 re query (fst (address_patterns ! 2))
     \<and> map_of kvs ''city'' = stored_group1 re query (value_pattern ''city'')
     \<and> map_of kvs ''last_name'' =
           stored_group1 re query (value_pattern ''(?:last name|surname|family name)'')
     \<and> map_of kvs ''country'' = stored_group1 re query (value_pattern ''country'')
     \<and> map_of kvs ''zip'' =
           stored_group1 re query
             (''(?:zip|postal|zip code|postal code)'' @ bs @ ''s+(?:is|:)?'' @ bs
                @ ''s+([^'' @ bs @ ''.,'' @ bs @ ''s]+)'')
     \<and> map_of kvs ''province_code'' = stored_group1 re query (value_pattern ''(?:state|province)''))"
proof (intro conjI impI)
  show "extract_entities chain re query ''order'' = Inr (extract_order_entities_regex re query)"
    if "chain OrderPrompt query = Inl e"
    using that by (simp add: extract_entities_def extract_order_entities_def try_except_def)
  show "extract_entities chain re query ''update_order'' = Inr (extract_update_order_entities_regex re query)"
    if "chain UpdateOrderPrompt query = Inl e"
    using that by (simp add: extract_entities_def extract_update_order_entities_def try_except_def)
  show "extract_entities chain re query ''cancel_order'' = Inr (extract_cancel_order_entities_regex re query)"
    if "chain CancelOrderPrompt query = Inl e"
    using that by (simp add: extract_entities_def extract_cancel_order_entities_def try_except_def)
  show "extract_order_entities_regex re query =
       PDict (set_if ''order_id'' (map_option snd (first_match re order_id_patterns True query)) [])"
    by (simp add: extract_order_entities_regex_def extract_order_id_regex_def)
  show "extract_cancel_order_entities_regex re query =
       PDict (set_if ''order_id'' (map_option snd (first_match re order_id_patterns True query)) [])"
    by (simp add: extract_cancel_order_entities_regex_def extract_order_id_regex_def)
  from update_order_regex_entries [of re query]
  obtain kvs where res: "extract_update_order_entities_regex re query = PDict kvs"
    and keys: "fst ` set kvs \<subseteq> {''order_id'', ''email'', ''phone''} \<union> address_keys"
    and m1: "map_of kvs ''order_id'' = stored_if (extract_order_id_regex re query)"
    and m2: "map_of kvs ''email'' = stored_if (extract_email_regex re query)"
    and m3: "map_of kvs ''phone'' = stored_if (extract_phone_regex re query)"
    and addr: "\<forall>k\<in>address_keys. map_of kvs k = map_of (extract_address_info_regex re query) k"
    by blast
  have a: "map_of kvs k = map_of (extract_address_info_regex re query) k" if "k \<in> address_keys" for k
    using addr that by blast
  show "\<exists>kvs. extract_update_order_entities_regex re query = PDict kvs
     \<and> fst ` set kvs \<subseteq> {''order_id'', ''email'', ''phone''} \<union> address_keys
     \<and> map_of kvs ''order_id'' =
           stored_if (map_option snd (first_match re order_id_patterns True query))
     \<and> map_of kvs ''email'' =
           stored_if (map_option fst (re_search re email_pattern False query))
     \<and> map_of kvs ''phone'' =
           stored_if (map_option (\<lambda>m. clean_phone (fst m)) (first_match re phone_patterns False query))
     \<and> map_of kvs ''address1'' =
           (case stored_group1 re query (fst (address_patterns ! 1)) of
              Some v \<Rightarrow> Some v
            | None \<Rightarrow> stored_group1 re query (fst (address_patterns ! 0)))
     \<and> map_of kvs ''address2'' = stored_group1 re query (fst (address_patterns ! 2))
     \<and> map_of kvs ''city'' = stored_group1 re query (value_pattern ''city'')
     \<and> map_of kvs ''last_name'' =
           stored_group1 re query (value_pattern ''(?:last name|surname|family name)'')
     \<and> map_of kvs ''country'' = stored_group1 re query (value_pattern ''country'')
     \<and> map_of kvs ''zip'' =
           stored_group1 re query
             (''(?:zip|postal|zip code|postal code)'' @ bs @ ''s+(?:is|:)?'' @ bs
                @ ''s+([^'' @ bs @ ''.,'' @ bs @ ''s]+)'')
     \<and> map_of kvs ''province_code'' = stored_group1 re query (value_pattern ''(?:state|province)'')"
  proof (intro exI [of _ kvs] conjI)
    show "extract_update_order_entities_regex re query = PDict kvs" by (rule res)
    show "fst ` set kvs \<subseteq> {''order_id'', ''email'', ''phone''} \<union> address_keys" by (rule keys)
    show "map_of kvs ''order_id'' = stored_if (map_option snd (first_match re order_id_patterns True query))"
      using m1 by (simp add: extract_order_id_regex_def)
    show "map_of kvs ''email'' = stored_if (map_option fst (re_search re email_pattern False query))"
      using m2 by (simp add: extract_email_regex_def)
    show "map_of kvs ''phone'' =
           stored_if (map_option (\<lambda>m. clean_phone (fst m)) (first_match re phone_patterns False query))"
      using m3 by (simp add: extract_phone_regex_def)
    show "map_of kvs ''address1'' =
           (case stored_group1 re query (fst (address_patterns ! 1)) of
              Some v \<Rightarrow> Some v
            | None \<Rightarrow> stored_group1 re query (fst (address_patterns ! 0)))"
      using a [of "''address1''"] by (simp add: address_keys_def address_info_entries(1))
    show "map_of kvs ''address2'' = stored_group1 re query (fst (address_patterns ! 2))"
      using a [of "''address2''"] by (simp add: address_keys_def address_info_entries(2))
    show "map_of kvs ''city'' = stored_group1 re query (value_pattern ''city'')"
      using a [of "''city''"] by (simp add: address_keys_def address_info_entries(3))
    show "map_of kvs ''last_name'' =
           stored_group1 re query (value_pattern ''(?:last name|surname|family name)'')"
      using a [of "''last_name''"] by (simp add: address_keys_def address_info_entries(4))
    show "map_of kvs ''country'' = stored_group1 re query (value_pattern ''country'')"
      using a [of "''country''"] by (simp add: address_keys_def address_info_entries(5))
    show "map_of kvs ''zip'' =
           stored_group1 re query
             (''(?:zip|postal|zip code|postal code)'' @ bs @ ''s+(?:is|:)?'' @ bs
                @ ''s+([^'' @ bs @ ''.,'' @ bs @ ''s]+)'')"
      using a [of "''zip''"] by (simp add: address_keys_def address_info_entries(6))
    show "map_of kvs ''province_code'' = stored_group1 re query (value_pattern ''(?:state|province)'')"
      using a [of "''province_code''"] by (simp add: address_keys_def address_info_entries(7))
  qed
qed

theorem extract_entities_regex_fallback_witness:
  "extract_entities (\<lambda>p q. Inl (OtherError ''timeout'')) example_regex example_query ''order'' =
     Inr (PDict [(''order_id'', PStr ''12345'')])
   \<and> extract_entities (\<lambda>p q. Inl (OtherError ''timeout'')) example_regex example_query ''update_order'' =
     Inr (PDict [(''order_id'', PStr ''12345''), (''email'', PStr ''a@b.example''),
                 (''phone'', PStr ''5551234567''), (''address2'', PStr ''Flat 4''),
                 (''city'', PStr ''Pune'')])
   \<and> extract_entities (\<lambda>p q. Inl (OtherError ''timeout'')) example_regex example_query ''cancel_order'' =
     Inr (PDict [(''order_id'', PStr ''12345'')])
   \<and> extract_entities (\<lambda>p q. Inl (OtherError ''timeout'')) example_regex example_address_query
       ''update_order'' =
     Inr (PDict [(''order_id'', PStr ''411001''), (''address1'', PStr ''12 Main St''),
                 (''last_name'', PStr ''Rao''), (''country'', PStr ''India''),
                 (''zip'', PStr ''411001''), (''province_code'', PStr ''MH'')])"
proof -
  note table = example_regex_def example_matches_def example_query_def example_address_query_def bs_def
  have oid: "extract_order_id_regex example_regex example_query = Some ''12345''"
    by (simp add: extract_order_id_regex_def order_id_patterns_def table)
  have email: "extract_email_regex example_regex example_query = Some ''a@b.example''"
    by (simp add: extract_email_regex_def email_pattern_def table)
  have phone: "extract_phone_regex example_regex example_query = Some ''5551234567''"
    by (simp add: extract_phone_regex_def phone_patterns_def clean_phone_def is_digit_def table)
  have addr: "extract_address_info_regex example_regex example_query =
      [(''address2'', PStr ''Flat 4''), (''city'', PStr ''Pune'')]"
    by (simp add: extract_address_info_regex_def address_patterns_def set_group1_def
        value_pattern_def strip_def isspace_def table)
  have oid2: "extract_order_id_regex example_regex example_address_query = Some ''411001''"
    by (simp add: extract_order_id_regex_def order_id_patterns_def table)
  have email2: "extract_email_regex example_regex example_address_query = None"
    by (simp add: extract_email_regex_def email_pattern_def table)
  have phone2: "extract_phone_regex example_regex example_address_query = None"
    by (simp add: extract_phone_regex_def phone_patterns_def table)
  have addr2: "extract_address_info_regex example_regex example_address_query =
      [(''address1'', PStr ''12 Main St''), (''last_name'', PStr ''Rao''), (''country'', PStr ''India''),
       (''zip'', PStr ''411001''), (''province_code'', PStr ''MH'')]"
    by (simp add: extract_address_info_regex_def address_patterns_def set_group1_def
        value_pattern_def strip_def isspace_def table)
  have o: "extract_order_entities_regex example_regex example_query = PDict [(''order_id'', PStr ''12345'')]"
    by (simp add: extract_order_entities_regex_def oid set_if_def)
  have c: "extract_cancel_order_entities_regex example_regex example_query = PDict [(''order_id'', PStr ''12345'')]"
    by (simp add: extract_cancel_order_entities_regex_def oid set_if_def)
  have u: "extract_update_order_entities_regex example_regex example_query =
      PDict [(''order_id'', PStr ''12345''), (''email'', PStr ''a@b.example''),
             (''phone'', PStr ''5551234567''), (''address2'', PStr ''Flat 4''), (''city'', PStr ''Pune'')]"
    by (simp add: extract_update_order_entities_regex_def oid email phone addr set_if_def dict_merge_def)
  have u2: "extract_update_order_entities_regex example_regex example_address_query =
      PDict [(''order_id'', PStr ''411001''), (''address1'', PStr ''12 Main St''),
             (''last_name'', PStr ''Rao''), (''country'', PStr ''India''),
             (''zip'', PStr ''411001''), (''province_code'', PStr ''MH'')]"
    by (simp add: extract_update_order_entities_regex_def oid2 email2 phone2 addr2 set_if_def dict_merge_def)
  from extract_entities_regex_fallback [of "\<lambda>p q. Inl (OtherError ''timeout'')" example_query
      "OtherError ''timeout''" example_regex]
    extract_entities_regex_fallback [of "\<lambda>p q. Inl (OtherError ''timeout'')" example_address_query
      "OtherError ''timeout''" example_regex]
    o c u u2
  show ?thesis by simp
qed

subsection \<open>The call session\<close>

lemma mapM_Inl_elem: "x \<in> set xs \<Longrightarrow> f x = Inl e \<Longrightarrow> \<exists>e'. mapM f xs = Inl e'"
  by (induction xs) (auto split: sum.splits)

lemma insert_needs_call_reason:
  assumes "map_of cd ''Call_Reason'' = None"
  shows "insert_conversation_to_db d cd = (if engine d \<and> connect_raises d then Inl (OtherError ''OperationalError'') else Inr False, d)"
proof -
  let ?f = "\<lambda>column. case py_getitem cd column of Inl e \<Rightarrow> Inl e | Inr v \<Rightarrow> Inr (column, v)"
  have miss: "?f ''Call_Reason'' = Inl KeyError" using assms by (simp add: py_getitem_def)
  have col: "''Call_Reason'' \<in> set insert_columns" by (simp add: insert_columns_def)
  have "\<exists>e'. mapM ?f insert_columns = Inl e'"
    by (rule mapM_Inl_elem [where f = ?f, OF col]) (rule miss)
  then obtain e' where "mapM ?f insert_columns = Inl e'" ..
  then show ?thesis by (simp add: insert_conversation_to_db_def)
qed

lemma conversation_data_no_call_reason: "map_of (conversation_data now s) ''Call_Reason'' = None"
  by (simp add: conversation_data_def)

lemma save_conversation_writes_no_row: "database (save_conversation_to_db now s) = database s"
  by (simp add: save_conversation_to_db_def insert_needs_call_reason conversation_data_no_call_reason)

lemma save_conversation_only_database: "save_conversation_to_db now s = s"
  by (simp add: save_conversation_to_db_def insert_needs_call_reason conversation_data_no_call_reason)

lemma run_Nil: "run r s [] = s"
  by (simp add: run_def)

lemma run_Cons: "run r s (e # es) = run r (step r s e) es"
  by (simp add: run_def)

lemma run_snoc: "run r s (es @ [e]) = step r (run r s es) e"
  by (simp add: run_def)

lemma step_database: "database (step r s e) = database s"
  by (cases e) (simp_all add: on_participant_connected_def on_user_speech_committed_def
      on_agent_speech_committed_def get_product_information_def ensure_shopify_def
      get_store_information_def save_conversation_writes_no_row Let_def)

lemma run_database: "database (run r s es) = database s"
  by (induction es arbitrary: s) (simp_all add: run_Nil run_Cons step_database)

lemma step_detected_intent: "detected_intent (step r s e) = detected_intent s"
  by (cases e) (simp_all add: on_participant_connected_def on_user_speech_committed_def
      on_agent_speech_committed_def get_product_information_def ensure_shopify_def
      get_store_information_def save_conversation_only_database Let_def)

lemma run_detected_intent: "detected_intent (run r s es) = detected_intent s"
  by (induction es arbitrary: s) (simp_all add: run_Nil run_Cons step_detected_intent)

lemma step_store_profile: "\<not> is_lookup e \<Longrightarrow> store_profile (step r s e) = store_profile s"
  by (cases e) (simp_all add: store_profile_def on_user_speech_committed_def
      on_agent_speech_committed_def get_product_information_def ensure_shopify_def
      get_store_information_def save_conversation_only_database Let_def)

lemma run_store_profile:
  "list_all (\<lambda>e. \<not> is_lookup e) es \<Longrightarrow> store_profile (run r s es) = store_profile s"
  by (induction es arbitrary: s) (simp_all add: run_Nil run_Cons step_store_profile)

lemma connected_store_profile:
  "store_profile (on_participant_connected r attributes s) =
     get_store_from_redis r (map_of attributes ''sip.trunkPhoneNumber'')"
  by (simp add: store_profile_def on_participant_connected_def Let_def)

lemma step_escalation:
  "escalation_requested (step r s e) =
     (escalation_requested s \<or> (\<exists>msg. e = UserSpeechCommitted msg \<and> asks_for_human msg))"
  by (cases e) (auto simp: on_participant_connected_def on_user_speech_committed_def
      on_agent_speech_committed_def get_product_information_def ensure_shopify_def
      get_store_information_def save_conversation_only_database Let_def)

lemma run_escalation:
  "escalation_requested (run r s es) =
     (escalation_requested s \<or> (\<exists>msg. UserSpeechCommitted msg \<in> set es \<and> asks_for_human msg))"
  by (induction es arbitrary: s) (auto simp: run_Nil run_Cons step_escalation)

lemma contains_iff_sublist: "contains sub t \<longleftrightarrow> sublist sub t"
  by (induction t) (auto simp: sublist_Cons_right)

text \<open>
  C2. The claim has one row written to \<open>Conversations\<close> at call end. The record that
  \<open>save_conversation_to_db\<close> builds has no key \<open>Call_Reason\<close> (its line is commented
  out), while \<open>insert_conversation_to_db\<close> reads \<open>conversation_data['Call_Reason']\<close>
  inside its \<open>try\<close>: the \<open>KeyError\<close> is caught, the function returns \<open>False\<close>, and
  no row is written. At the end of the example call the table is still empty.
\<close>

theorem shutdown_writes_no_row:
  "Conversations (database (run example_redis example_session example_call)) = []
   \<and> insert_conversation_to_db working_db
        (conversation_data 65000000 (run example_redis example_session (butlast example_call)))
       = (Inr False, working_db)"
  by (simp add: run_database insert_needs_call_reason conversation_data_no_call_reason
      example_session_def new_session_def working_db_def)

text \<open>
  C6. The claim has the user-speech callback update the detected intent, as the comment
  \<open>Detect intent from user message\<close> at the head of the callback's \<open>try\<close> says. The
  call of the classifier and the assignment to \<open>detected_intent\<close> are commented out:
  after the caller's utterance \<open>Where is my order?\<close> (one of the classifier's own
  examples of the intent \<open>order\<close>) is committed, the detected intent is still
  \<open>None\<close>, and the record built at the end of the call has \<open>Query_Type = None\<close>.
\<close>

theorem user_speech_leaves_detected_intent_unset:
  "detected_intent (on_user_speech_committed (Str ''Where is my order?'') example_session) = None
   \<and> detected_intent (run example_redis example_session (butlast example_call)) = None
   \<and> map_of (conversation_data 65000000 (run example_redis example_session (butlast example_call)))
         ''Query_Type'' = Some PNone"
  by (simp add: run_detected_intent conversation_data_def on_user_speech_committed_def
      example_session_def new_session_def Let_def)

text \<open>
  C8. After \<open>on_participant_connected\<close> the store name, store details, access token
  and base URL are what Redis holds under the callee number, and no sequence of speech
  callbacks, function calls and session logging changes them.
\<close>

theorem store_profile_immutable:
  assumes "list_all (\<lambda>e. \<not> is_lookup e) es"
  shows "store_profile (run r (on_participant_connected r attributes s) es) =
           store_profile (on_participant_connected r attributes s)
         \<and> store_profile (on_participant_connected r attributes s) =
           get_store_from_redis r (map_of attributes ''sip.trunkPhoneNumber'')"
  using assms by (simp add: run_store_profile connected_store_profile)

theorem store_profile_immutable_witness:
  "list_all (\<lambda>e. \<not> is_lookup e) (tl example_call)
   \<and> store_profile (run example_redis example_session example_call) =
       (Some ''Acme'', Some ''Acme sells shirts.'', Some ''token'', Some ''acme.myshopify.com'')"
proof -
  have h: "list_all (\<lambda>e. \<not> is_lookup e) (tl example_call)"
    by (simp add: example_call_def)
  have c: "example_call = ParticipantConnected example_attributes # tl example_call"
    by (simp add: example_call_def)
  have g: "get_store_from_redis example_redis (map_of example_attributes ''sip.trunkPhoneNumber'') =
       (Some ''Acme'', Some ''Acme sells shirts.'', Some ''token'', Some ''acme.myshopify.com'')"
    by (simp add: get_store_from_redis_def example_redis_def example_attributes_def)
  have "run example_redis example_session example_call =
        run example_redis (on_participant_connected example_redis example_attributes example_session)
          (tl example_call)"
    by (subst c) (simp add: run_Cons)
  with store_profile_immutable [OF h, of example_redis example_attributes example_session] g h
  show ?thesis by simp
qed

text \<open>
  C10. The escalation flag starts false; the user-speech callback leaves it true if it
  was, and otherwise sets it exactly when the lowercased utterance contains one of the three
  phrases; once true it stays true through every sequence of events; after a run from a new
  session it is true exactly when some committed utterance asked for a human; and the record
  built at call end carries it.
\<close>

theorem escalation_flag_monotone:
  "escalation_requested (new_session room sid t d) = False
   \<and> escalation_requested (on_user_speech_committed msg s) = (escalation_requested s \<or> asks_for_human msg)
   \<and> (asks_for_human (Str u) \<longleftrightarrow>
        sublist ''speak to human'' (lower u) \<or> sublist ''talk to agent'' (lower u)
        \<or> sublist ''agent please'' (lower u))
   \<and> (escalation_requested s \<longrightarrow> escalation_requested (run r s es))
   \<and> (escalation_requested (run r (new_session room sid t d) es) \<longleftrightarrow>
        (\<exists>m. UserSpeechCommitted m \<in> set es \<and> asks_for_human m))
   \<and> map_of (conversation_data now s) ''Escalation'' = Some (PBool (escalation_requested s))"
proof (intro conjI)
  show "escalation_requested (new_session room sid t d) = False"
    by (simp add: new_session_def)
  show "escalation_requested (on_user_speech_committed msg s) = (escalation_requested s \<or> asks_for_human msg)"
    using step_escalation [of r s "UserSpeechCommitted msg"] by simp
  show "asks_for_human (Str u) \<longleftrightarrow>
        sublist ''speak to human'' (lower u) \<or> sublist ''talk to agent'' (lower u)
        \<or> sublist ''agent please'' (lower u)"
    by (simp add: asks_for_human_def contains_iff_sublist)
  show "escalation_requested s \<longrightarrow> escalation_requested (run r s es)"
    by (simp add: run_escalation)
  show "escalation_requested (run r (new_session room sid t d) es) \<longleftrightarrow>
        (\<exists>m. UserSpeechCommitted m \<in> set es \<and> asks_for_human m)"
    by (simp add: run_escalation new_session_def)
  show "map_of (conversation_data now s) ''Escalation'' = Some (PBool (escalation_requested s))"
    by (simp add: conversation_data_def)
qed

theorem escalation_flag_monotone_witness:
  "asks_for_human (Str ''I want to Talk to Agent'')
   \<and> \<not> asks_for_human (Str ''Where is my order?'')
   \<and> escalation_requested (run example_redis example_session example_call)
   \<and> map_of (conversation_data 65000000 (run example_redis example_session example_call)) ''Escalation''
       = Some (PBool True)"
proof -
  let ?s = "run example_redis (new_session ''room'' ''session_0.0'' 0 working_db) example_call"
  have a: "asks_for_human (Str ''I want to Talk to Agent'')"
    by code_simp
  have b: "\<not> asks_for_human (Str ''Where is my order?'')"
    by code_simp
  have mem: "UserSpeechCommitted (Str ''I want to Talk to Agent'') \<in> set example_call"
    by (simp add: example_call_def)
  note inst = escalation_flag_monotone [of "''room''" "''session_0.0''" 0 working_db
      "Str ''I want to Talk to Agent''" ?s "''I want to Talk to Agent''" example_redis example_call
      65000000]
  from inst a mem have e: "escalation_requested ?s" by blast
  from inst have "map_of (conversation_data 65000000 ?s) ''Escalation'' = Some (PBool (escalation_requested ?s))"
    by blast
  with e a b show ?thesis by (simp add: example_session_def)
qed

end
